theory Spec2Isabelle
  imports Main
begin

section \<open>JavaScript strings\<close>

text \<open>
  Strings are \<open>char list\<close>. The helpers below are the \<open>String.prototype\<close> methods the
  sources call, with the results the language gives them.
\<close>

text \<open>\<open>s.indexOf(c)\<close>: the index of the first occurrence, or \<open>-1\<close>.\<close>

fun indexOf :: "string \<Rightarrow> char \<Rightarrow> int" where
  "indexOf [] c = - 1"
| "indexOf (x # xs) c =
     (if x = c then 0 else (let i = indexOf xs c in if i = - 1 then - 1 else i + 1))"

text \<open>\<open>s.substring(i)\<close>: a negative start counts as \<open>0\<close>, a start past the end gives \<open>''\<close>.\<close>

definition substring :: "string \<Rightarrow> int \<Rightarrow> string" where
  "substring s i = drop (nat i) s"

text \<open>\<open>s.slice(1)\<close>; \<open>route_hash\<close> below is \<open>window.location.hash.slice(1) || '/'\<close>.\<close>

definition slice1 :: "string \<Rightarrow> string" where
  "slice1 s = drop 1 s"

text \<open>\<open>s.split(c)\<close> for a one-character separator; the result is never empty.\<close>

fun split_on :: "char \<Rightarrow> string \<Rightarrow> string list" where
  "split_on c [] = [[]]"
| "split_on c (x # xs) =
     (if x = c then [] # split_on c xs
      else (case split_on c xs of
              [] \<Rightarrow> [[x]]
            | p # ps \<Rightarrow> (x # p) # ps))"

text \<open>\<open>s.includes(sub)\<close>.\<close>

fun str_includes :: "string \<Rightarrow> string \<Rightarrow> bool" where
  "str_includes [] sub = (sub = [])"
| "str_includes (x # xs) sub = (take (length sub) (x # xs) = sub \<or> str_includes xs sub)"

text \<open>
  \<open>s.trim()\<close>. White space is the ASCII set (space, tab, line feed, vertical tab, form
  feed, carriage return); the non-ASCII white space of ECMAScript is outside the byte
  strings used here.
\<close>

definition is_ws :: "char \<Rightarrow> bool" where
  "is_ws c = (c \<in> set [CHR '' '', CHR 0x09, CHR 0x0A, CHR 0x0B, CHR 0x0C, CHR 0x0D])"

definition trim :: "string \<Rightarrow> string" where
  "trim s = rev (dropWhile is_ws (rev (dropWhile is_ws s)))"

text \<open>\<open>xs.join('')\<close> on an array of strings.\<close>

definition join_empty :: "string list \<Rightarrow> string" where
  "join_empty xs = concat xs"

section \<open>\<open>utils/state.ts\<close>: the pending email and temporary password\<close>

text \<open>
  The module holds two variables, both initially \<open>null\<close>. The record is the module's
  state; every exported function takes it and, when it assigns, returns it updated.
\<close>

record state_ts =
  email :: "string option"
  password :: "string option"

definition state_ts_init :: state_ts where
  "state_ts_init = \<lparr>email = None, password = None\<rparr>"

definition setEmail :: "string \<Rightarrow> state_ts \<Rightarrow> state_ts" where
  "setEmail v s = s\<lparr>email := Some v\<rparr>"

definition getEmail :: "state_ts \<Rightarrow> string option" where
  "getEmail s = email s"

definition clearEmail :: "state_ts \<Rightarrow> state_ts" where
  "clearEmail s = s\<lparr>email := None\<rparr>"

definition setPassword :: "string \<Rightarrow> state_ts \<Rightarrow> state_ts" where
  "setPassword v s = s\<lparr>password := Some v\<rparr>"

definition getPassword :: "state_ts \<Rightarrow> string option" where
  "getPassword s = password s"

definition clearPassword :: "state_ts \<Rightarrow> state_ts" where
  "clearPassword s = s\<lparr>password := None\<rparr>"

section \<open>\<open>utils/query.ts\<close>: query parameters of the URL hash\<close>

text \<open>
  \<open>URLSearchParams\<close> is the browser's parser of \<open>application/x-www-form-urlencoded\<close>
  strings: one leading \<open>?\<close> is dropped, the rest is split at \<open>&\<close>, empty pieces are
  skipped, each piece is split at its first \<open>=\<close>, \<open>+\<close> becomes a space and \<open>%XY\<close> is
  decoded. The object is the list of name/value pairs in order; \<open>get\<close> returns the value
  of the first pair with the name, or \<open>null\<close>.
\<close>

definition hex_val :: "char \<Rightarrow> nat option" where
  "hex_val c =
     (let n = of_char c :: nat in
      if 48 \<le> n \<and> n \<le> 57 then Some (n - 48)
      else if 65 \<le> n \<and> n \<le> 70 then Some (n - 55)
      else if 97 \<le> n \<and> n \<le> 102 then Some (n - 87)
      else None)"

fun percent_decode :: "string \<Rightarrow> string" where
  "percent_decode (p # a # b # rest) =
     (if p = CHR ''%'' then
        (case (hex_val a, hex_val b) of
           (Some h, Some l) \<Rightarrow> char_of (16 * h + l) # percent_decode rest
         | _ \<Rightarrow> p # percent_decode (a # b # rest))
      else p # percent_decode (a # b # rest))"
| "percent_decode (p # rest) = p # percent_decode rest"
| "percent_decode [] = []"

definition form_decode :: "string \<Rightarrow> string" where
  "form_decode s = percent_decode (map (\<lambda>c. if c = CHR ''+'' then CHR '' '' else c) s)"

definition parse_pair :: "string \<Rightarrow> string \<times> string" where
  "parse_pair piece =
     (let i = indexOf piece CHR ''='' in
      if i = - 1 then (form_decode piece, [])
      else (form_decode (take (nat i) piece), form_decode (substring piece (i + 1))))"

type_synonym url_search_params = "(string \<times> string) list"

definition URLSearchParams :: "string \<Rightarrow> url_search_params" where
  "URLSearchParams init =
     (let s = (case init of c # cs \<Rightarrow> (if c = CHR ''?'' then cs else init) | [] \<Rightarrow> init)
      in map parse_pair (filter (\<lambda>p. p \<noteq> []) (split_on CHR ''&'' s)))"

definition params_get :: "url_search_params \<Rightarrow> string \<Rightarrow> string option" where
  "params_get ps key = map_of ps key"

text \<open>
  Both functions read \<open>window.location.hash\<close>, which is always a string, so
  \<open>window.location.hash || ''\<close> is the hash itself; it is the first argument here.
\<close>

definition getHashQueryParam :: "string \<Rightarrow> string \<Rightarrow> string option" where
  "getHashQueryParam hash key =
     (let queryIndex = indexOf hash CHR ''?'' in
      if queryIndex = - 1 then None
      else (let queryString = substring hash (queryIndex + 1);
                params = URLSearchParams queryString
            in params_get params key))"

definition getAllHashQueryParams :: "string \<Rightarrow> url_search_params" where
  "getAllHashQueryParams hash =
     (let queryIndex = indexOf hash CHR ''?'';
          queryString = (if queryIndex \<ge> 0 then substring hash (queryIndex + 1) else [])
      in URLSearchParams queryString)"

section \<open>The browser and the identity provider as an environment\<close>

text \<open>
  Every thrown value in these sources is an \<open>Error\<close> object of the language, the browser
  or the vendor SDK; only its \<open>name\<close> and \<open>message\<close> are ever read.
\<close>

record js_error =
  err_name :: string
  err_message :: string

definition Error :: "string \<Rightarrow> js_error" where
  "Error msg = \<lparr>err_name = ''Error'', err_message = msg\<rparr>"

definition TypeError :: "string \<Rightarrow> js_error" where
  "TypeError msg = \<lparr>err_name = ''TypeError'', err_message = msg\<rparr>"

text \<open>The argument and the result of the SDK's \<open>signIn\<close> and \<open>confirmSignIn\<close>.\<close>

record sign_in_input =
  username :: string
  si_password :: string
  options :: "(string \<times> string) option"

record next_step =
  signInStep :: string
  totpSetupDetails :: "(string \<Rightarrow> string \<Rightarrow> string) option"
  availableChallenges :: "string list option"

record sign_in_output =
  isSignedIn :: bool
  nextStep :: "next_step option"

text \<open>
  \<open>totpSetupDetails\<close> is the object's \<open>getSetupUri(appName, accountName).toString()\<close>.
  \<open>fetchAuthSession\<close> yields the two tokens as strings (\<open>tokens?.accessToken?.toString()\<close>),
  absent when \<open>tokens\<close> or the token is undefined.
\<close>

record auth_session =
  accessToken :: "string option"
  idToken :: "string option"

record mfa_preference =
  preferred :: "string option"
  enabled :: "string list option"

record config =
  cognito_userPoolId :: string
  cognito_userPoolWebClientId :: string

record http_response =
  ok :: bool
  http_status :: nat
  body_text :: "js_error + string"

text \<open>
  The answer to \<open>GET get-user-by-cognito-id\<close>: \<open>authMethod_read\<close> is the outcome of
  \<open>(await response.json()).authMethod\<close>, an error when \<open>json()\<close> rejects or yields
  \<open>null\<close>.
\<close>

record user_response =
  user_ok :: bool
  user_status :: nat
  authMethod_read :: "js_error + string option"

text \<open>
  The value of \<open>JSON.parse(atob(segment))\<close>. Only \<open>null\<close> makes a property read throw;
  of any other value the sources read \<open>exp\<close>, \<open>sub\<close> and \<open>cognito:username\<close>.
  \<open>p_exp\<close> is the \<open>exp\<close> claim in whole seconds, \<open>None\<close> when \<open>exp * 1000\<close> is not a
  time value of \<open>Date\<close> (absent, not a number, out of range).
\<close>

record jwt_payload =
  p_exp :: "int option"
  p_sub :: "string option"
  p_cognito_username :: "string option"

datatype json_value = JNull | JValue jwt_payload

datatype notify_type = NSuccess | NInfo | NWarning | NError

text \<open>
  What a run does to the outside, in order. \<open>Invoke\<close> marks the entry into an exported
  function of the auth module, so that calls into it can be counted; the other events are
  calls of the SDK, HTTP requests, console output, toasts, navigation and timers. Console
  warnings and errors carry their fixed first argument. \<open>console.log\<close> is left out:
  \<open>app.ts\<close> replaces it by a function that prints only when debugging, and nothing depends
  on it. \<open>e.preventDefault()\<close> of the handlers is left out as well.
\<close>

datatype event =
    Invoke string "string list"
  | FetchConfig
  | AmplifyConfigure config
  | SdkSignIn sign_in_input
  | SdkSignOut
  | SdkConfirmSignIn string
  | SdkFetchAuthSession
  | SdkListWebAuthnCredentials
  | SdkFetchMFAPreference
  | HttpGetUser string string
  | ConsoleWarn string
  | ConsoleError string
  | GritterAdd notify_type string string
  | SetLocationHref string
  | SetLocationHash string
  | PaceRestart
  | SetInterval
  | ClearInterval
  | ModalShow
  | AppInit
  | RunCleanup nat
  | FetchComponentHtml string
  | ModuleInit string "string option"
  | InitializeLayout
  | UpdateChildView "string option"

text \<open>
  An entry of \<open>routes.json\<close>: the component's name and the child's component name, each
  \<open>None\<close> when the property is missing. An empty name counts as missing in a condition.
\<close>

record route_entry =
  component :: "string option"
  child :: "string option"

text \<open>
  The environment answers each outside call as a function of everything that happened
  before it (the trace), so a second call may be answered differently from the first.
  \<open>fetch_text\<close> is \<open>fetch(url).then(r => r.text())\<close>; \<open>module_init\<close> is the dynamic import
  of a component module followed by its \<open>init\<close>; \<open>cleanup_answer\<close> is a registered
  cleanup function; \<open>initializeLayout\<close> and \<open>updateChildView\<close> are the layout
  component's exports. \<open>auth_endpoint\<close> and \<open>api_base_url\<close> are the values of
  \<open>getAuthEndpoint()\<close> and \<open>getApiBaseUrl()\<close>, which never throw. The remaining fields
  are what the page and the build provide.
\<close>

record env =
  fetch_config :: "event list \<Rightarrow> js_error + http_response"
  json_parse_config :: "string \<Rightarrow> js_error + config option"
  sdk_signIn :: "event list \<Rightarrow> sign_in_input \<Rightarrow> js_error + sign_in_output"
  sdk_signOut :: "event list \<Rightarrow> js_error + unit"
  sdk_confirmSignIn :: "event list \<Rightarrow> string \<Rightarrow> js_error + sign_in_output"
  sdk_fetchAuthSession :: "event list \<Rightarrow> js_error + auth_session"
  sdk_listWebAuthnCredentials :: "event list \<Rightarrow> js_error + string list option"
  sdk_fetchMFAPreference :: "event list \<Rightarrow> js_error + mfa_preference option"
  http_get_user :: "event list \<Rightarrow> string \<Rightarrow> string \<Rightarrow> js_error + user_response"
  atob_json :: "string \<Rightarrow> js_error + json_value"
  clock :: "event list \<Rightarrow> int"
  utc_string :: "int \<Rightarrow> string"
  fetch_text :: "event list \<Rightarrow> string \<Rightarrow> js_error + string"
  cleanup_answer :: "event list \<Rightarrow> nat \<Rightarrow> js_error + unit"
  module_init :: "event list \<Rightarrow> string \<Rightarrow> string option \<Rightarrow> js_error + unit"
  initializeLayout_answer :: "event list \<Rightarrow> js_error + unit"
  updateChildView_answer :: "event list \<Rightarrow> string option \<Rightarrow> js_error + unit"
  window_routes :: "(string \<rightharpoonup> route_entry) option"
  componentModules :: "string list"
  gritter_ready :: bool
  has_PublicKeyCredential :: bool
  has_Pace :: bool
  parsley_isValid :: bool
  has_modal_session :: bool
  has_bootstrap :: bool
  has_App_init :: bool
  has_main :: bool
  DEV :: bool
  BASE_URL :: string
  auth_endpoint :: string
  api_base_url :: string

text \<open>The elements of the page the handlers touch.\<close>

record error_box =
  textContent :: string
  box_d_none :: bool

text \<open>
  A submit button with its text and spinner children; a child is \<open>None\<close> when
  \<open>querySelector\<close> finds none, otherwise whether it carries the class \<open>d-none\<close>.
\<close>

record button =
  disabled :: bool
  text_d_none :: "bool option"
  spinner_d_none :: "bool option"

text \<open>
  The mutable state: module variables, browser storage, the page. \<open>mfa_digits\<close> are the
  values of the \<open>.code-digit\<close> inputs in document order; \<open>login_form\<close> are the name and
  value of each input of \<open>#login-form\<close>; \<open>spinnerInterval\<close> tells whether the variable
  holds a timer handle; \<open>cleanupCallbacks\<close> are the registered cleanup functions, by
  number, last registered last.
\<close>

record world =
  trace :: "event list"
  isConfigured :: bool
  cachedConfig :: "config option"
  pending :: state_ts
  sessionStorage :: "string \<rightharpoonup> string"
  document_cookie :: "string list"
  mfa_digits :: "string list"
  mfa_error_box :: "error_box option"
  mfa_verify_btn :: "button option"
  login_form :: "(string \<times> string) list"
  login_submit_btn :: "button option"
  passkey_btn :: button
  spinnerInterval :: bool
  location_hash :: string
  cleanupCallbacks :: "nat list"
  isMainViewportLoaded :: bool
  main_innerHTML :: string

subsection \<open>Asynchronous functions as state transformers that may throw\<close>

text \<open>
  The page runs on one thread and every \<open>await\<close> is sequential, so an \<open>async\<close> function
  is a function from the state to an outcome and the new state; \<open>Inl\<close> is a rejection.
\<close>

type_synonym 'a io = "world \<Rightarrow> (js_error + 'a) \<times> world"

definition ret :: "'a \<Rightarrow> 'a io" where
  "ret x = (\<lambda>w. (Inr x, w))"

definition throw :: "js_error \<Rightarrow> 'a io" where
  "throw e = (\<lambda>w. (Inl e, w))"

definition bind :: "'a io \<Rightarrow> ('a \<Rightarrow> 'b io) \<Rightarrow> 'b io" where
  "bind m f = (\<lambda>w. case m w of (Inl e, w') \<Rightarrow> (Inl e, w') | (Inr x, w') \<Rightarrow> f x w')"

definition try_catch :: "'a io \<Rightarrow> (js_error \<Rightarrow> 'a io) \<Rightarrow> 'a io" where
  "try_catch m h = (\<lambda>w. case m w of (Inl e, w') \<Rightarrow> h e w' | (Inr x, w') \<Rightarrow> (Inr x, w'))"

definition emit :: "event \<Rightarrow> unit io" where
  "emit ev = (\<lambda>w. (Inr (), w\<lparr>trace := trace w @ [ev]\<rparr>))"

definition call :: "event \<Rightarrow> (event list \<Rightarrow> js_error + 'a) \<Rightarrow> 'a io" where
  "call ev answer = (\<lambda>w. (answer (trace w), w\<lparr>trace := trace w @ [ev]\<rparr>))"

definition modify :: "(world \<Rightarrow> world) \<Rightarrow> unit io" where
  "modify f = (\<lambda>w. (Inr (), f w))"

definition reads :: "(world \<Rightarrow> 'a) \<Rightarrow> 'a io" where
  "reads f = (\<lambda>w. (Inr (f w), w))"

text \<open>\<open>new Date()\<close>, as its time value.\<close>

definition now :: "env \<Rightarrow> int io" where
  "now e = reads (\<lambda>w. clock e (trace w))"

definition when_do :: "bool \<Rightarrow> unit io \<Rightarrow> unit io" where
  "when_do b m = (if b then m else ret ())"

text \<open>\<open>try { await m } catch (_) { /* ignore */ }\<close>.\<close>

definition ignore_errors :: "unit io \<Rightarrow> unit io" where
  "ignore_errors m = try_catch m (\<lambda>_. ret ())"

text \<open>A string in a condition is true when it is not empty, and an absent one is false.\<close>

definition truthy :: "string option \<Rightarrow> bool" where
  "truthy s = (case s of None \<Rightarrow> False | Some v \<Rightarrow> v \<noteq> [])"

text \<open>\<open>s || ''\<close>; under a test that \<open>s\<close> is true it is \<open>s\<close> itself.\<close>

definition or_empty :: "string option \<Rightarrow> string" where
  "or_empty s = (case s of None \<Rightarrow> [] | Some v \<Rightarrow> v)"

text \<open>\<open>if (s) { f(s) }\<close> for a string that may be absent.\<close>

definition if_truthy :: "string option \<Rightarrow> (string \<Rightarrow> unit io) \<Rightarrow> unit io" where
  "if_truthy s f = (case s of None \<Rightarrow> ret () | Some v \<Rightarrow> if v = [] then ret () else f v)"

text \<open>The decimal digits of a number, as a template literal prints them.\<close>

function show_nat :: "nat \<Rightarrow> string" where
  "show_nat n =
     (if n < 10 then [char_of (48 + n)]
      else show_nat (n div 10) @ [char_of (48 + n mod 10)])"
  by pat_completeness auto
termination
  by (relation "measure id") auto

declare show_nat.simps [simp del]

section \<open>\<open>utils/notify.ts\<close>\<close>

text \<open>
  \<open>notify\<close> adds a Gritter toast, or warns on the console and returns when the plugin is
  not loaded. The toast's title defaults to the type in upper case. The event records the
  type, the text and the title; the \<open>span\<close> markup around the title, the CSS class and the
  display time of four seconds are fixed by the type and not recorded.
\<close>

definition type_upper :: "notify_type \<Rightarrow> string" where
  "type_upper t =
     (case t of NSuccess \<Rightarrow> ''SUCCESS'' | NInfo \<Rightarrow> ''INFO''
      | NWarning \<Rightarrow> ''WARNING'' | NError \<Rightarrow> ''ERROR'')"

definition notify :: "env \<Rightarrow> notify_type \<Rightarrow> string \<Rightarrow> string option \<Rightarrow> unit io" where
  "notify e t txt title =
     (if \<not> gritter_ready e then emit (ConsoleWarn ''[Notify Warning] Gritter not available'')
      else emit (GritterAdd t txt (case title of None \<Rightarrow> type_upper t | Some ti \<Rightarrow> ti)))"

section \<open>\<open>utils/config.ts\<close>\<close>

definition getConfig :: "env \<Rightarrow> config option io" where
  "getConfig e =
     bind (reads cachedConfig) (\<lambda>cached.
     case cached of
       Some c \<Rightarrow> ret (Some c)
     | None \<Rightarrow>
         try_catch
           (bind (call FetchConfig (fetch_config e)) (\<lambda>response.
              if \<not> ok response
              then throw (Error (''Failed to load config.json: '' @ show_nat (http_status response)))
              else (case body_text response of
                      Inl err \<Rightarrow> throw err
                    | Inr txt \<Rightarrow>
                        (case json_parse_config e txt of
                           Inl err \<Rightarrow> throw err
                         | Inr c \<Rightarrow> bind (modify (\<lambda>w. w\<lparr>cachedConfig := c\<rparr>)) (\<lambda>_. ret c)))))
           (\<lambda>error.
              bind (notify e NError ''Failed to load config.json'' (Some ''Config Error''))
                (\<lambda>_. throw error)))"

section \<open>\<open>utils/auth.ts\<close>\<close>

definition PUBLIC_ROUTES :: "string list" where
  "PUBLIC_ROUTES =
     [''/'', ''/login'', ''/login/admin'', ''/forgot-password'', ''/mfa'', ''/reset-password'',
      ''/mfa-setup'', ''/reset-password-confirm'', ''/update-password'',
      ''/post-password-change'', ''/register'']"

definition configureAuth :: "env \<Rightarrow> unit io" where
  "configureAuth e =
     bind (reads isConfigured) (\<lambda>configured.
     if configured then ret ()
     else
       bind (getConfig e) (\<lambda>cfg.
         case cfg of
           None \<Rightarrow> throw (TypeError ''Cannot read properties of null'')
         | Some c \<Rightarrow>
             bind (emit (AmplifyConfigure c)) (\<lambda>_.
               modify (\<lambda>w. w\<lparr>isConfigured := True\<rparr>))))"

text \<open>
  \<open>setJWTCookie\<close>. \<open>jwt.split('.')[1]\<close> is \<open>undefined\<close> when the token has no dot, and
  \<open>atob\<close> then receives the string \<open>undefined\<close>. A \<open>Date\<close> is its time value in
  milliseconds, \<open>None\<close> for an invalid date, which compares false with everything.
  \<open>jwt_expiry\<close> is lines 524 to 527: it throws when \<open>atob\<close> or \<open>JSON.parse\<close> throws, or the
  payload is \<open>null\<close>.
\<close>

definition jwt_segment :: "string \<Rightarrow> string" where
  "jwt_segment jwt = (case split_on CHR ''.'' jwt of _ # s # _ \<Rightarrow> s | _ \<Rightarrow> ''undefined'')"

definition jwt_payload_of :: "env \<Rightarrow> string \<Rightarrow> js_error + json_value" where
  "jwt_payload_of e jwt = atob_json e (jwt_segment jwt)"

definition jwt_expiry :: "env \<Rightarrow> string \<Rightarrow> js_error + int option" where
  "jwt_expiry e jwt =
     (case jwt_payload_of e jwt of
        Inl err \<Rightarrow> Inl err
      | Inr JNull \<Rightarrow> Inl (TypeError ''Cannot read properties of null'')
      | Inr (JValue payload) \<Rightarrow> Inr (map_option (\<lambda>s. s * 1000) (p_exp payload)))"

definition date_le :: "int option \<Rightarrow> int \<Rightarrow> bool" where
  "date_le d today = (case d of None \<Rightarrow> False | Some t \<Rightarrow> t \<le> today)"

definition toUTCString :: "env \<Rightarrow> int option \<Rightarrow> string" where
  "toUTCString e d = (case d of None \<Rightarrow> ''Invalid Date'' | Some t \<Rightarrow> utc_string e t)"

definition token_cookie :: "env \<Rightarrow> string \<Rightarrow> int option \<Rightarrow> string" where
  "token_cookie e jwt expires =
     ''token='' @ jwt @ ''; path=/; expires='' @ toUTCString e expires
       @ ''; samesite=none; secure; domain=.oils.exchange''"

definition set_cookie :: "string \<Rightarrow> unit io" where
  "set_cookie c = modify (\<lambda>w. w\<lparr>document_cookie := document_cookie w @ [c]\<rparr>)"

definition setJWTCookie :: "env \<Rightarrow> string \<Rightarrow> unit io" where
  "setJWTCookie e jwt =
     (if jwt = [] then ret ()
      else
        (case jwt_expiry e jwt of
           Inr expiryDate \<Rightarrow>
             bind (now e) (\<lambda>today.
               if date_le expiryDate today then ret ()
               else set_cookie (token_cookie e jwt expiryDate))
         | Inl error \<Rightarrow>
             bind (emit (ConsoleError ''Failed to parse JWT for cookie expiry:'')) (\<lambda>_.
             bind (now e) (\<lambda>fallbackExpiry.
               set_cookie (token_cookie e jwt (Some (fallbackExpiry + 3600000)))))))"

definition setItem :: "string \<Rightarrow> string \<Rightarrow> unit io" where
  "setItem k v = modify (\<lambda>w. w\<lparr>sessionStorage := (sessionStorage w)(k \<mapsto> v)\<rparr>)"

text \<open>
  The block that stores the session's tokens, shared by several functions:
  \<open>if (accessToken) { setItem; setJWTCookie }  if (idToken) { setItem }\<close>.
\<close>

definition store_tokens :: "env \<Rightarrow> auth_session \<Rightarrow> unit io" where
  "store_tokens e authSession =
     bind (if_truthy (accessToken authSession)
             (\<lambda>token. bind (setItem ''accessToken'' token)
                (\<lambda>_. setJWTCookie e token)))
       (\<lambda>_. if_truthy (idToken authSession) (setItem ''idToken''))"

record mfa_result =
  mfa_status :: string
  errorMsg :: "string option"

definition verifyMFACode :: "env \<Rightarrow> string \<Rightarrow> string \<Rightarrow> mfa_result io" where
  "verifyMFACode e site code =
     bind (emit (Invoke ''verifyMFACode'' [site, code])) (\<lambda>_.
       try_catch
         (bind (configureAuth e) (\<lambda>_.
          bind (call (SdkConfirmSignIn code) (\<lambda>tr. sdk_confirmSignIn e tr code)) (\<lambda>confirmSignInOutput.
            if isSignedIn confirmSignInOutput then
              bind (call SdkFetchAuthSession (sdk_fetchAuthSession e)) (\<lambda>authSession.
                let accessToken' = or_empty (accessToken authSession);
                    idToken' = or_empty (idToken authSession)
                in
                bind (setItem ''accessToken'' accessToken') (\<lambda>_.
                bind (when_do (accessToken' \<noteq> []) (setJWTCookie e accessToken')) (\<lambda>_.
                bind (when_do (idToken' \<noteq> []) (setItem ''idToken'' idToken')) (\<lambda>_.
                ret \<lparr>mfa_status = ''Success'', errorMsg = None\<rparr>))))
            else ret \<lparr>mfa_status = ''Failed'',
                       errorMsg = Some ''MFA code invalid or not accepted.''\<rparr>)))
         (\<lambda>err.
            bind (emit (ConsoleError ''[VerifyMFACode Error]'')) (\<lambda>_.
              ret \<lparr>mfa_status = ''Failed'', errorMsg = Some (err_message err)\<rparr>)))"

definition checkSession :: "env \<Rightarrow> bool io" where
  "checkSession e =
     bind (emit (Invoke ''checkSession'' [])) (\<lambda>_.
       try_catch
         (bind (configureAuth e) (\<lambda>_.
          bind (call SdkFetchAuthSession (sdk_fetchAuthSession e)) (\<lambda>session.
            if truthy (accessToken session) \<and> truthy (idToken session) then
              bind (setItem ''accessToken'' (or_empty (accessToken session))) (\<lambda>_.
              bind (setItem ''idToken'' (or_empty (idToken session))) (\<lambda>_.
              bind (setJWTCookie e (or_empty (accessToken session))) (\<lambda>_.
              ret True)))
            else ret False)))
         (\<lambda>err.
            bind (emit (ConsoleWarn ''[checkSession] No valid session:'')) (\<lambda>_. ret False)))"

record sign_in_result =
  status :: string
  mfaSetupUrl :: "string option"
  error :: "string option"

definition status_only :: "string \<Rightarrow> sign_in_result" where
  "status_only st = \<lparr>status = st, mfaSetupUrl = None, error = None\<rparr>"

definition status_error :: "string \<Rightarrow> string \<Rightarrow> sign_in_result" where
  "status_error st msg = \<lparr>status = st, mfaSetupUrl = None, error = Some msg\<rparr>"

definition unavailable :: sign_in_result where
  "unavailable = status_error ''Failed''
     ''Sign-in is temporarily unavailable due to a system issue. Please try again later.''"

definition password_input :: "string \<Rightarrow> string \<Rightarrow> sign_in_input" where
  "password_input email' pw = \<lparr>username = email', si_password = pw, options = None\<rparr>"

definition sdk_signIn_call :: "env \<Rightarrow> sign_in_input \<Rightarrow> sign_in_output io" where
  "sdk_signIn_call e inp = call (SdkSignIn inp) (\<lambda>tr. sdk_signIn e tr inp)"

definition signOut_quietly :: "env \<Rightarrow> unit io" where
  "signOut_quietly e = ignore_errors (call SdkSignOut (sdk_signOut e))"

text \<open>
  Lines 79 to 90 of \<open>signInUser\<close>: the sign-in, signed out and repeated once when the
  provider answers that a user is already signed in.
\<close>

definition already_signed_in :: "js_error \<Rightarrow> bool" where
  "already_signed_in err =
     (err_message err \<noteq> []
      \<and> str_includes (err_message err) ''There is already a signed in user'')"

definition signIn_or_retry :: "env \<Rightarrow> string \<Rightarrow> string \<Rightarrow> sign_in_output io" where
  "signIn_or_retry e email' pw =
     try_catch (sdk_signIn_call e (password_input email' pw))
       (\<lambda>error.
          if already_signed_in error
          then bind (call SdkSignOut (sdk_signOut e))
                 (\<lambda>_. sdk_signIn_call e (password_input email' pw))
          else throw error)"

text \<open>
  Lines 136 to 185: the look-up of the user's \<open>authMethod\<close>. The result is \<open>Some r\<close> when the
  block returns \<open>r\<close> from \<open>signInUser\<close>, and \<open>None\<close> when control falls out of it.
\<close>

definition check_authMethod :: "env \<Rightarrow> sign_in_result option io" where
  "check_authMethod e =
     try_catch
       (bind (call SdkFetchAuthSession (sdk_fetchAuthSession e)) (\<lambda>authSession.
          case accessToken authSession of
            None \<Rightarrow> ret None
          | Some token \<Rightarrow>
              if token = [] then ret None
              else
                bind (setItem ''accessToken'' token) (\<lambda>_.
                bind (setJWTCookie e token) (\<lambda>_.
                bind (if_truthy (idToken authSession) (setItem ''idToken'')) (\<lambda>_.
                  case jwt_payload_of e token of
                    Inl err \<Rightarrow> throw err
                  | Inr JNull \<Rightarrow> throw (TypeError ''Cannot read properties of null'')
                  | Inr (JValue payload) \<Rightarrow>
                      (let cognitoId = (if truthy (p_sub payload) then p_sub payload
                                        else p_cognito_username payload)
                       in
                       if \<not> truthy cognitoId then ret None
                       else
                         (let url = api_base_url e @ ''get-user-by-cognito-id/'' @ or_empty cognitoId
                          in
                          bind (call (HttpGetUser url token)
                                  (\<lambda>tr. http_get_user e tr url token)) (\<lambda>response.
                            if \<not> user_ok response then
                              bind (emit (ConsoleWarn ''[signInUser] API returned'')) (\<lambda>_.
                              bind (signOut_quietly e) (\<lambda>_. ret (Some unavailable)))
                            else
                              (case authMethod_read response of
                                 Inl err \<Rightarrow> throw err
                               | Inr authMethod \<Rightarrow>
                                   if authMethod = Some ''password-only''
                                   then ret (Some (status_only ''Success''))
                                   else ret None)))))))))
       (\<lambda>apiError.
          bind (emit (ConsoleWarn ''[signInUser] Failed to check user authMethod:'')) (\<lambda>_.
          bind (signOut_quietly e) (\<lambda>_. ret (Some unavailable))))"

definition hasMFA_of :: "mfa_preference option \<Rightarrow> bool" where
  "hasMFA_of mfaPreference =
     (case mfaPreference of
        None \<Rightarrow> False
      | Some p \<Rightarrow> preferred p = Some ''TOTP''
          \<or> (case enabled p of None \<Rightarrow> False | Some xs \<Rightarrow> ''TOTP'' \<in> set xs))"

text \<open>
  Lines 112 to 209, the branch of a signed-in user, with the same convention: \<open>None\<close>
  falls through to the final \<open>return { status: 'Success' }\<close>.
\<close>

definition signed_in_checks :: "env \<Rightarrow> sign_in_result option io" where
  "signed_in_checks e =
     try_catch
       (bind (call SdkListWebAuthnCredentials (sdk_listWebAuthnCredentials e)) (\<lambda>credentials.
          let hasPasskeys = (case credentials of None \<Rightarrow> False | Some cs \<Rightarrow> length cs > 0) in
          if hasPasskeys then
            bind (emit (ConsoleWarn
                    ''[signInUser] User has passkeys but attempted password sign-in'')) (\<lambda>_.
            bind (call SdkSignOut (sdk_signOut e)) (\<lambda>_.
            ret (Some (status_error ''PasskeyRequired''
              (''You have passkeys registered. Please use the '' @ [CHR 0x22]
                @ ''Sign in with Passkey'' @ [CHR 0x22] @ '' button instead of password.'')))))
          else
            bind (call SdkFetchMFAPreference (sdk_fetchMFAPreference e)) (\<lambda>mfaPreference.
              let hasMFA = hasMFA_of mfaPreference in
              if \<not> hasMFA \<and> \<not> hasPasskeys then
                bind (check_authMethod e) (\<lambda>returned.
                  case returned of
                    Some r \<Rightarrow> ret (Some r)
                  | None \<Rightarrow>
                      bind (emit (ConsoleWarn
                              ''[signInUser] User has no second factor configured'')) (\<lambda>_.
                      ret (Some \<lparr>status = ''MFASetup'', mfaSetupUrl = Some [], error = None\<rparr>)))
              else
                bind (call SdkFetchAuthSession (sdk_fetchAuthSession e)) (\<lambda>authSession.
                bind (store_tokens e authSession) (\<lambda>_. ret None)))))
       (\<lambda>error.
          bind (emit (ConsoleError ''Failed to check passkeys or MFA preference:''))
            (\<lambda>_. ret None))"

text \<open>
  Lines 92 to 212: the translation of the provider's answer. Each of the first four tests
  reads \<open>result.nextStep.signInStep\<close> only when the user is not signed in, which throws
  when \<open>nextStep\<close> is undefined; a step that is none of the four falls to the final return.
\<close>

definition translate_result :: "env \<Rightarrow> string \<Rightarrow> sign_in_output \<Rightarrow> sign_in_result io" where
  "translate_result e email' result =
     (if \<not> isSignedIn result then
        (case nextStep result of
           None \<Rightarrow> throw (TypeError ''Cannot read properties of undefined'')
         | Some step \<Rightarrow>
             if signInStep step = ''CONTINUE_SIGN_IN_WITH_TOTP_SETUP'' then
               ret \<lparr>status = ''MFASetup'',
                    mfaSetupUrl = map_option (\<lambda>getSetupUri. getSetupUri ''OpenLogx'' email')
                                    (totpSetupDetails step),
                    error = None\<rparr>
             else if signInStep step = ''CONFIRM_SIGN_IN_WITH_TOTP_CODE'' then
               ret (status_only ''MFA'')
             else if signInStep step = ''RESET_PASSWORD'' then
               ret (status_only ''ResetPasswordConfirm'')
             else if signInStep step = ''CONFIRM_SIGN_IN_WITH_NEW_PASSWORD_REQUIRED'' then
               ret (status_only ''UpdatePassword'')
             else ret (status_only ''Success''))
      else
        bind (signed_in_checks e) (\<lambda>returned.
          case returned of
            Some r \<Rightarrow> ret r
          | None \<Rightarrow> ret (status_only ''Success'')))"

text \<open>
  \<open>signInUser\<close> is lines 77 to 90, which obtain the provider's answer, followed by the
  translation of that answer.
\<close>

definition provider_answer :: "env \<Rightarrow> string \<Rightarrow> string \<Rightarrow> sign_in_output io" where
  "provider_answer e email' pw =
     bind (emit (Invoke ''signInUser'' [email', pw])) (\<lambda>_.
     bind (configureAuth e) (\<lambda>_.
     signIn_or_retry e email' pw))"

definition signInUser :: "env \<Rightarrow> string \<Rightarrow> string \<Rightarrow> sign_in_result io" where
  "signInUser e email' pw =
     bind (provider_answer e email' pw) (\<lambda>result.
     translate_result e email' result)"

definition passkey_input :: "string \<Rightarrow> sign_in_input" where
  "passkey_input email' =
     \<lparr>username = email', si_password = [], options = Some (''USER_AUTH'', ''WEB_AUTHN'')\<rparr>"

text \<open>The \<open>catch\<close> block of \<open>signInWithPasskey\<close>, lines 353 to 375.\<close>

definition passkey_error_result :: "js_error \<Rightarrow> sign_in_result" where
  "passkey_error_result err =
     (if err_name err = ''NotAllowedError'' then
        status_error ''Cancelled'' ''Authentication was cancelled''
      else if err_name err = ''EmptySignInPassword'' then
        status_error ''NoPasskey'' ''No passkey registered for this account''
      else if str_includes (err_message err) ''No credentials available''
              \<or> str_includes (err_message err) ''no credentials''
              \<or> str_includes (err_message err) ''User does not have''
              \<or> err_name err = ''InvalidStateError'' then
        status_error ''NoPasskey'' ''No passkey found for this device''
      else status_error ''Failed'' (err_message err))"

definition signInWithPasskey :: "env \<Rightarrow> string \<Rightarrow> sign_in_result io" where
  "signInWithPasskey e email' =
     bind (emit (Invoke ''signInWithPasskey'' [email'])) (\<lambda>_.
     try_catch
       (bind (configureAuth e) (\<lambda>_.
          if \<not> has_PublicKeyCredential e then
            ret (status_error ''NotSupported'' ''WebAuthn is not supported on this browser'')
          else
            bind (sdk_signIn_call e (passkey_input email')) (\<lambda>out.
              if isSignedIn out then
                bind (try_catch
                        (bind (call SdkFetchAuthSession (sdk_fetchAuthSession e))
                           (store_tokens e))
                        (\<lambda>err. emit (ConsoleError
                                  ''Failed to set tokens after passkey sign in:''))) (\<lambda>_.
                ret (status_only ''Success''))
              else
                (case nextStep out of
                   Some step \<Rightarrow>
                     if signInStep step = ''DONE'' then ret (status_only ''Success'')
                     else if signInStep step = ''CONTINUE_SIGN_IN_WITH_FIRST_FACTOR_SELECTION''
                             \<and> ''WEB_AUTHN'' \<notin> set (case availableChallenges step of
                                                      None \<Rightarrow> [] | Some cs \<Rightarrow> cs) then
                       bind (emit (ConsoleWarn
                               ''[SignInWithPasskey] WEB_AUTHN not in available challenges:''))
                         (\<lambda>_. ret (status_error ''NoPasskey''
                            ''No passkey registered for this account. Please register a passkey from your profile after signing in.''))
                     else ret (status_error ''Failed''
                                 (''Unexpected sign-in step: '' @ signInStep step))
                 | None \<Rightarrow>
                     ret (status_error ''Failed''
                            ''Passkey authentication did not complete successfully'')))))
       (\<lambda>err.
          bind (emit (ConsoleError ''[SignInWithPasskey Error]'')) (\<lambda>_.
            ret (passkey_error_result err))))"

section \<open>Buttons with a spinner\<close>

text \<open>
  Every handler shows and removes its loading state the same way:
  \<open>disabled = true; btnText?.classList.add('d-none'); btnSpinner?.classList.remove('d-none')\<close>
  and the reverse.
\<close>

definition show_loading :: "button \<Rightarrow> button" where
  "show_loading b =
     b\<lparr>disabled := True,
       text_d_none := map_option (\<lambda>_. True) (text_d_none b),
       spinner_d_none := map_option (\<lambda>_. False) (spinner_d_none b)\<rparr>"

definition restore_button :: "button \<Rightarrow> button" where
  "restore_button b =
     b\<lparr>disabled := False,
       text_d_none := map_option (\<lambda>_. False) (text_d_none b),
       spinner_d_none := map_option (\<lambda>_. True) (spinner_d_none b)\<rparr>"

section \<open>\<open>components/mfa/component.ts\<close>: the submit handler\<close>

text \<open>\<open>Array.from(digits).map(d => d.value).join('').trim()\<close>.\<close>

definition mfa_code :: "world \<Rightarrow> string" where
  "mfa_code w = trim (join_empty (mfa_digits w))"

definition mfa_show_error :: "string \<Rightarrow> unit io" where
  "mfa_show_error msg =
     modify (\<lambda>w. w\<lparr>mfa_error_box :=
       map_option (\<lambda>b. b\<lparr>textContent := msg, box_d_none := False\<rparr>) (mfa_error_box w)\<rparr>)"

definition mfa_hide_error :: "unit io" where
  "mfa_hide_error =
     modify (\<lambda>w. w\<lparr>mfa_error_box :=
       map_option (\<lambda>b. b\<lparr>textContent := [], box_d_none := True\<rparr>) (mfa_error_box w)\<rparr>)"

definition mfa_btn_loading :: "unit io" where
  "mfa_btn_loading = modify (\<lambda>w. w\<lparr>mfa_verify_btn := map_option show_loading (mfa_verify_btn w)\<rparr>)"

definition mfa_btn_restore :: "unit io" where
  "mfa_btn_restore = modify (\<lambda>w. w\<lparr>mfa_verify_btn := map_option restore_button (mfa_verify_btn w)\<rparr>)"

text \<open>\<open>a || b\<close> on strings.\<close>

definition or_else :: "string \<Rightarrow> string \<Rightarrow> string" where
  "or_else a b = (if a \<noteq> [] then a else b)"

definition mfa_submitHandler :: "env \<Rightarrow> unit io" where
  "mfa_submitHandler e =
     bind (reads mfa_code) (\<lambda>code.
     if length code \<noteq> 6 then mfa_show_error ''Please enter a full 6-digit code''
     else
       bind mfa_hide_error (\<lambda>_.
         try_catch
           (bind mfa_btn_loading (\<lambda>_.
            bind (verifyMFACode e ''OpenLogx'' code) (\<lambda>result.
              if mfa_status result = ''Success'' then
                emit (SetLocationHref (auth_endpoint e))
              else
                bind mfa_btn_restore (\<lambda>_.
                  notify e NError
                    (or_else (or_empty (errorMsg result)) ''MFA code verification failed.'')
                    (Some ''MFA Error'')))))
           (\<lambda>ex.
              bind mfa_btn_restore (\<lambda>_.
                notify e NError
                  (or_else (err_message ex) ''Unexpected error during MFA verification.'')
                  (Some ''MFA Error'')))))"

text \<open>
  The verification a submission performs: \<open>verifyMFACode\<close> on the code, in the state
  the handler has reached when it calls it (banner hidden, button in its loading state).
\<close>

definition mfa_verification :: "env \<Rightarrow> world \<Rightarrow> (js_error + mfa_result) \<times> world" where
  "mfa_verification e w =
     verifyMFACode e ''OpenLogx'' (mfa_code w) (snd (mfa_btn_loading (snd (mfa_hide_error w))))"

section \<open>\<open>utils/form.ts\<close>\<close>

text \<open>
  \<open>extractFormValues\<close>: the trimmed value of every named input that is not ignored; a later
  input of the same name replaces an earlier one.
\<close>

definition extractFormValues :: "(string \<times> string) list \<Rightarrow> string list \<Rightarrow> (string \<rightharpoonup> string)" where
  "extractFormValues form ignore =
     foldl (\<lambda>vals (name, v). if name = [] \<or> name \<in> set ignore then vals else vals(name \<mapsto> trim v))
       Map.empty form"

section \<open>The login component: submit and passkey handlers\<close>



definition clear_spinnerInterval :: "unit io" where
  "clear_spinnerInterval =
     bind (reads spinnerInterval) (\<lambda>handle. when_do handle (emit ClearInterval))"

definition pace_restart :: "env \<Rightarrow> unit io" where
  "pace_restart e = when_do (has_Pace e) (emit PaceRestart)"






definition form_value :: "(string \<rightharpoonup> string) \<Rightarrow> string \<Rightarrow> string" where
  "form_value vals name = (case vals name of None \<Rightarrow> [] | Some v \<Rightarrow> v)"


definition passkey_btn_loading :: "unit io" where
  "passkey_btn_loading = modify (\<lambda>w. w\<lparr>passkey_btn := show_loading (passkey_btn w)\<rparr>)"

definition passkey_btn_restore :: "unit io" where
  "passkey_btn_restore = modify (\<lambda>w. w\<lparr>passkey_btn := restore_button (passkey_btn w)\<rparr>)"

definition set_spinnerInterval :: "unit io" where
  "set_spinnerInterval =
     bind (emit SetInterval) (\<lambda>_. modify (\<lambda>w. w\<lparr>spinnerInterval := True\<rparr>))"

definition passkey_dispatch :: "env \<Rightarrow> sign_in_result \<Rightarrow> unit io" where
  "passkey_dispatch e signInOutput =
     (if status signInOutput = ''Success'' then emit (SetLocationHref (auth_endpoint e))
      else if status signInOutput = ''NoPasskey'' then
        bind (notify e NWarning
                ''No passkey found for this account. Please sign in with email and password.''
                (Some ''Passkey Not Found'')) (\<lambda>_.
        bind clear_spinnerInterval (\<lambda>_. passkey_btn_restore))
      else if status signInOutput = ''NotSupported'' then
        bind (notify e NError
                ''Passkey authentication is not supported on this browser or device.''
                (Some ''Not Supported'')) (\<lambda>_.
        bind clear_spinnerInterval (\<lambda>_. passkey_btn_restore))
      else
        bind (emit (ConsoleWarn ''[Passkey] Unhandled response status:'')) (\<lambda>_.
        bind clear_spinnerInterval (\<lambda>_. passkey_btn_restore)))"

definition passkeyClickHandler :: "env \<Rightarrow> unit io" where
  "passkeyClickHandler e =
     bind (reads login_form) (\<lambda>form.
     let uname = form_value (extractFormValues form []) ''email'' in
     if uname = [] then
       notify e NWarning ''Please enter your email address first.'' (Some ''Email Required'')
     else
       try_catch
         (bind passkey_btn_loading (\<lambda>_.
          bind (pace_restart e) (\<lambda>_.
          bind set_spinnerInterval (\<lambda>_.
          bind (signInWithPasskey e uname) (\<lambda>signInOutput.
          bind clear_spinnerInterval (\<lambda>_.
          passkey_dispatch e signInOutput))))))
         (\<lambda>err.
            bind clear_spinnerInterval (\<lambda>_.
            bind passkey_btn_restore (\<lambda>_.
              if err_name err = ''NotAllowedError'' \<or> str_includes (err_message err) ''cancelled''
                 \<or> str_includes (err_message err) ''canceled''
              then ret ()
              else
                bind (emit (ConsoleError ''[Passkey Error]'')) (\<lambda>_.
                  notify e NError (err_message err) (Some ''Passkey Authentication Failed''))))))"

section \<open>\<open>app.ts\<close>: the router\<close>

text \<open>
  \<open>cleanupCurrentComponent\<close> pops and runs the registered functions, last first, and logs
  what one of them throws.
\<close>

fun run_cleanups :: "env \<Rightarrow> nat list \<Rightarrow> unit io" where
  "run_cleanups e [] = ret ()"
| "run_cleanups e (f # fs) =
     bind (try_catch (call (RunCleanup f) (\<lambda>tr. cleanup_answer e tr f))
             (\<lambda>err. emit (ConsoleError ''Cleanup error:'')))
       (\<lambda>_. run_cleanups e fs)"

definition cleanupCurrentComponent :: "env \<Rightarrow> unit io" where
  "cleanupCurrentComponent e =
     bind (reads cleanupCallbacks) (\<lambda>fs.
     bind (modify (\<lambda>w. w\<lparr>cleanupCallbacks := []\<rparr>)) (\<lambda>_.
     run_cleanups e (rev fs)))"

definition basePath :: "env \<Rightarrow> string" where
  "basePath e = (if DEV e then BASE_URL e @ ''src/components'' else BASE_URL e @ ''components'')"

text \<open>Lines 102 to 127: what \<open>handleRoute\<close> does once the route may be shown.\<close>

definition load_route :: "env \<Rightarrow> string \<Rightarrow> route_entry \<Rightarrow> unit io" where
  "load_route e cname route =
     bind (cleanupCurrentComponent e) (\<lambda>_.
     bind (reads isMainViewportLoaded) (\<lambda>loaded.
       if \<not> loaded then
         (let url = basePath e @ ''/'' @ cname @ ''/component.html'' in
          bind (call (FetchComponentHtml url) (\<lambda>tr. fetch_text e tr url)) (\<lambda>html.
            if \<not> has_main e then throw (TypeError ''Cannot set properties of null'')
            else
              bind (modify (\<lambda>w. w\<lparr>main_innerHTML := html\<rparr>)) (\<lambda>_.
                case find (\<lambda>p. str_includes p (''/components/'' @ cname @ ''/component''))
                       (componentModules e) of
                  None \<Rightarrow> emit (ConsoleError ''[App] Could not find module for '')
                | Some componentPath \<Rightarrow>
                    bind (call (ModuleInit componentPath (child route))
                            (\<lambda>tr. module_init e tr componentPath (child route))) (\<lambda>_.
                    bind (call InitializeLayout (initializeLayout_answer e)) (\<lambda>_.
                    modify (\<lambda>w. w\<lparr>isMainViewportLoaded := True\<rparr>))))))
       else
         call (UpdateChildView (child route))
           (\<lambda>tr. updateChildView_answer e tr (child route))))"

definition route_hash :: "world \<Rightarrow> string" where
  "route_hash w = or_else (slice1 (location_hash w)) ''/''"

definition routePath_of :: "string \<Rightarrow> string" where
  "routePath_of hash = (case split_on CHR ''?'' hash of p # _ \<Rightarrow> p | [] \<Rightarrow> [])"

definition lookup_route :: "env \<Rightarrow> string \<Rightarrow> route_entry option" where
  "lookup_route e routePath = (case window_routes e of None \<Rightarrow> None | Some routes \<Rightarrow> routes routePath)"

text \<open>
  Lines 75 to 100: the session gate. The result tells whether \<open>handleRoute\<close> goes on to
  load the route (\<open>False\<close> stands for the two \<open>return\<close> statements).
\<close>

definition session_gate :: "env \<Rightarrow> string \<Rightarrow> bool io" where
  "session_gate e routePath =
     try_catch
       (let isPublic = (routePath \<in> set PUBLIC_ROUTES) in
        if \<not> isPublic then
          bind (checkSession e) (\<lambda>isSessionValid.
            if \<not> isSessionValid then
              bind (when_do (has_modal_session e)
                      (if \<not> has_bootstrap e
                       then throw (TypeError ''Cannot read properties of undefined'')
                       else bind (emit ModalShow) (\<lambda>_. when_do (has_App_init e) (emit AppInit))))
                (\<lambda>_. ret False)
            else ret True)
        else ret True)
       (\<lambda>err.
          bind (emit (ConsoleError ''[App] Session check failed:'')) (\<lambda>_.
          bind (emit (SetLocationHref (BASE_URL e))) (\<lambda>_. ret False)))"

definition no_route_found :: "string \<Rightarrow> unit io" where
  "no_route_found hash =
     emit (ConsoleWarn (''[App] No route found for '' @ [CHR 0x22] @ hash @ [CHR 0x22]))"

definition handleRoute :: "env \<Rightarrow> unit io" where
  "handleRoute e =
     bind (reads route_hash) (\<lambda>hash.
     let routePath = routePath_of hash;
         route = lookup_route e routePath
     in
     case route of
       None \<Rightarrow> no_route_found hash
     | Some r \<Rightarrow>
         if \<not> truthy (component r) then no_route_found hash
         else
           bind (session_gate e routePath) (\<lambda>proceed.
             if proceed then load_route e (or_empty (component r)) r else ret ()))"

section \<open>States inside a run\<close>

text \<open>
  \<open>entered name args w\<close> is \<open>w\<close> just after the entry into the exported function has been
  recorded. \<open>login_submitting\<close> and \<open>passkey_clicked\<close> are the states in which the login
  handlers call \<open>signInUser\<close> and \<open>signInWithPasskey\<close>: the button shows its loading
  state, \<open>Pace\<close> is restarted when present, and for the passkey the spinner interval is set.
\<close>

definition entered :: "string \<Rightarrow> string list \<Rightarrow> world \<Rightarrow> world" where
  "entered name args w = w\<lparr>trace := trace w @ [Invoke name args]\<rparr>"


definition passkey_clicked :: "env \<Rightarrow> world \<Rightarrow> world" where
  "passkey_clicked e w =
     snd (set_spinnerInterval (snd (pace_restart e (snd (passkey_btn_loading w)))))"

section \<open>Reading a trace\<close>

text \<open>
  Events are grouped by what they are, so that a property can speak of the sign-in calls,
  the toasts or the navigations of a run. \<open>of_kind k tr\<close> are the events of kind \<open>k\<close> in
  \<open>tr\<close>, in order.
\<close>

datatype kind =
    KInvoke string
  | KConfig
  | KSignIn
  | KSignOut
  | KConfirmSignIn
  | KSession
  | KCredentials
  | KPreference
  | KHttp
  | KConsole
  | KToast
  | KNavigate
  | KPace
  | KTimer
  | KModal
  | KCleanup
  | KLoad

fun kind_of :: "event \<Rightarrow> kind" where
  "kind_of (Invoke name args) = KInvoke name"
| "kind_of FetchConfig = KConfig"
| "kind_of (AmplifyConfigure c) = KConfig"
| "kind_of (SdkSignIn inp) = KSignIn"
| "kind_of SdkSignOut = KSignOut"
| "kind_of (SdkConfirmSignIn code) = KConfirmSignIn"
| "kind_of SdkFetchAuthSession = KSession"
| "kind_of SdkListWebAuthnCredentials = KCredentials"
| "kind_of SdkFetchMFAPreference = KPreference"
| "kind_of (HttpGetUser url token) = KHttp"
| "kind_of (ConsoleWarn msg) = KConsole"
| "kind_of (ConsoleError msg) = KConsole"
| "kind_of (GritterAdd t txt title) = KToast"
| "kind_of (SetLocationHref url) = KNavigate"
| "kind_of (SetLocationHash h) = KNavigate"
| "kind_of PaceRestart = KPace"
| "kind_of SetInterval = KTimer"
| "kind_of ClearInterval = KTimer"
| "kind_of ModalShow = KModal"
| "kind_of AppInit = KModal"
| "kind_of (RunCleanup f) = KCleanup"
| "kind_of (FetchComponentHtml url) = KLoad"
| "kind_of (ModuleInit path c) = KLoad"
| "kind_of InitializeLayout = KLoad"
| "kind_of (UpdateChildView c) = KLoad"

definition of_kind :: "kind \<Rightarrow> event list \<Rightarrow> event list" where
  "of_kind k tr = filter (\<lambda>ev. kind_of ev = k) tr"

text \<open>
  \<open>emits S m\<close>: whatever the state, \<open>m\<close> only appends to the trace, and only events whose
  kind is in \<open>S\<close>.
\<close>

definition emits :: "kind set \<Rightarrow> 'a io \<Rightarrow> bool" where
  "emits S m = (\<forall>w. \<exists>evs. trace (snd (m w)) = trace w @ evs \<and> kind_of ` set evs \<subseteq> S)"

section \<open>Sample environments\<close>

text \<open>
  An environment in which every outside call succeeds, and a freshly loaded page with the
  six digits of a code typed in. Instances of the theorems are evaluated on variations of
  the two.
\<close>

definition quiet_env :: env where
  "quiet_env = \<lparr>
     fetch_config = (\<lambda>_. Inr \<lparr>ok = True, http_status = 200, body_text = Inr ''{}''\<rparr>),
     json_parse_config =
       (\<lambda>_. Inr (Some \<lparr>cognito_userPoolId = ''pool'', cognito_userPoolWebClientId = ''client''\<rparr>)),
     sdk_signIn = (\<lambda>_ _. Inr \<lparr>isSignedIn = True, nextStep = None\<rparr>),
     sdk_signOut = (\<lambda>_. Inr ()),
     sdk_confirmSignIn = (\<lambda>_ _. Inr \<lparr>isSignedIn = True, nextStep = None\<rparr>),
     sdk_fetchAuthSession = (\<lambda>_. Inr \<lparr>accessToken = Some ''h.p.s'', idToken = Some ''h.i.s''\<rparr>),
     sdk_listWebAuthnCredentials = (\<lambda>_. Inr None),
     sdk_fetchMFAPreference = (\<lambda>_. Inr None),
     http_get_user =
       (\<lambda>_ _ _. Inr \<lparr>user_ok = True, user_status = 200, authMethod_read = Inr None\<rparr>),
     atob_json =
       (\<lambda>_. Inr (JValue \<lparr>p_exp = Some 2000, p_sub = Some ''u1'', p_cognito_username = None\<rparr>)),
     clock = (\<lambda>_. 1000000),
     utc_string = (\<lambda>_. ''Thu, 01 Jan 1970 00:33:20 GMT''),
     fetch_text = (\<lambda>_ _. Inr ''<div></div>''),
     cleanup_answer = (\<lambda>_ _. Inr ()),
     module_init = (\<lambda>_ _ _. Inr ()),
     initializeLayout_answer = (\<lambda>_. Inr ()),
     updateChildView_answer = (\<lambda>_ _. Inr ()),
     window_routes = Some
       [''/'' \<mapsto> \<lparr>component = Some ''main-viewport'', child = Some ''login''\<rparr>,
        ''/mfa'' \<mapsto> \<lparr>component = Some ''main-viewport'', child = Some ''mfa''\<rparr>,
        ''/profile'' \<mapsto> \<lparr>component = Some ''main-viewport'', child = Some ''profile''\<rparr>],
     componentModules = [''./components/main-viewport/component.ts''],
     gritter_ready = True,
     has_PublicKeyCredential = True,
     has_Pace = False,
     parsley_isValid = True,
     has_modal_session = True,
     has_bootstrap = True,
     has_App_init = True,
     has_main = True,
     DEV = False,
     BASE_URL = ''/'',
     auth_endpoint = ''/secure/'',
     api_base_url = ''/api/''\<rparr>"

text \<open>The provider rejects the code: \<open>confirmSignIn\<close> answers that the user is not signed in.\<close>

definition rejecting_env :: env where
  "rejecting_env =
     quiet_env\<lparr>sdk_confirmSignIn := (\<lambda>_ _. Inr \<lparr>isSignedIn = False, nextStep = None\<rparr>)\<rparr>"



text \<open>The provider asks a user who is not signed in to set up TOTP.\<close>

definition totp_setup_step :: next_step where
  "totp_setup_step =
     \<lparr>signInStep = ''CONTINUE_SIGN_IN_WITH_TOTP_SETUP'',
      totpSetupDetails = Some (\<lambda>app account. ''otpauth://totp/'' @ app @ '':'' @ account),
      availableChallenges = None\<rparr>"

definition totp_setup_env :: env where
  "totp_setup_env =
     quiet_env\<lparr>sdk_signIn := (\<lambda>_ _. Inr \<lparr>isSignedIn = False, nextStep = Some totp_setup_step\<rparr>)\<rparr>"



text \<open>The user dismisses the browser's WebAuthn dialog.\<close>

definition cancelling_env :: env where
  "cancelling_env =
     quiet_env\<lparr>sdk_signIn := (\<lambda>_ _.
       Inl \<lparr>err_name = ''NotAllowedError'',
            err_message = ''The operation either timed out or was not allowed.''\<rparr>)\<rparr>"


text \<open>The routes file has an entry without a component.\<close>

definition bare_route_env :: env where
  "bare_route_env =
     quiet_env\<lparr>window_routes := Some [''/nowhere'' \<mapsto> \<lparr>component = None, child = None\<rparr>]\<rparr>"

definition idle_button :: button where
  "idle_button = \<lparr>disabled = False, text_d_none = Some False, spinner_d_none = Some True\<rparr>"

text \<open>
  \<open>fresh_world\<close> is at the public route \<open>/mfa\<close>; \<open>at_hash h\<close> is the same page at another
  hash.
\<close>

definition fresh_world :: world where
  "fresh_world = \<lparr>
     trace = [], isConfigured = False, cachedConfig = None, pending = state_ts_init,
     sessionStorage = Map.empty, document_cookie = [],
     mfa_digits = [''1'', ''2'', ''3'', ''4'', ''5'', ''6''],
     mfa_error_box = Some \<lparr>textContent = [], box_d_none = True\<rparr>,
     mfa_verify_btn = Some idle_button,
     login_form = [(''email'', ''ann@example.com''), (''password'', ''pw'')],
     login_submit_btn = Some idle_button,
     passkey_btn = idle_button,
     spinnerInterval = False,
     location_hash = ''#/mfa'',
     cleanupCallbacks = [],
     isMainViewportLoaded = True,
     main_innerHTML = []\<rparr>"

definition at_hash :: "string \<Rightarrow> world" where
  "at_hash h = fresh_world\<lparr>location_hash := h\<rparr>"

section \<open>Properties of the pending-value store\<close>

text \<open>
  C5. The pending email and the pending temporary password follow the lifecycle set, read
  back unchanged, cleared: after \<open>setEmail v\<close>, \<open>getEmail\<close> returns \<open>v\<close>; after
  \<open>clearEmail\<close> it returns \<open>null\<close>; the same holds for the password; and setting or
  clearing one of the two leaves the other as it was.
\<close>

theorem state_lifecycle:
  "getEmail (setEmail v s) = Some v
   \<and> getEmail (clearEmail s) = None
   \<and> getPassword (setPassword v s) = Some v
   \<and> getPassword (clearPassword s) = None
   \<and> getPassword (setEmail v s) = getPassword s
   \<and> getPassword (clearEmail s) = getPassword s
   \<and> getEmail (setPassword v s) = getEmail s
   \<and> getEmail (clearPassword s) = getEmail s
   \<and> getEmail state_ts_init = None
   \<and> getPassword state_ts_init = None"
  by (simp add: getEmail_def setEmail_def clearEmail_def getPassword_def setPassword_def
      clearPassword_def state_ts_init_def)

section \<open>Query parameters of the hash\<close>

lemma indexOf_ge: "- 1 \<le> indexOf s c"
  by (induction s) (auto simp: Let_def)

lemma indexOf_minus1: "(indexOf s c = - 1) = (c \<notin> set s)"
proof (induction s)
  case Nil
  then show ?case by simp
next
  case (Cons x xs)
  with indexOf_ge [of xs c] show ?case by (auto simp: Let_def)
qed

lemma indexOf_nonneg: "(0 \<le> indexOf s c) = (c \<in> set s)"
  using indexOf_minus1 [of s c] indexOf_ge [of s c] by linarith

lemma substring_after_first:
  "c \<in> set s \<Longrightarrow> substring s (indexOf s c + 1) = tl (dropWhile (\<lambda>x. x \<noteq> c) s)"
proof (induction s)
  case Nil
  then show ?case by simp
next
  case (Cons x xs)
  show ?case
  proof (cases "x = c")
    case True
    then show ?thesis by (simp add: substring_def)
  next
    case False
    with Cons.prems have mem: "c \<in> set xs" by simp
    then have nn: "0 \<le> indexOf xs c" by (simp add: indexOf_nonneg)
    then have ne: "indexOf xs c \<noteq> - 1" by linarith
    have "nat (indexOf xs c + 1 + 1) = Suc (nat (indexOf xs c + 1))" using nn by linarith
    with False ne Cons.IH [OF mem] show ?thesis
      by (simp add: substring_def Let_def)
  qed
qed

lemma URLSearchParams_empty: "URLSearchParams [] = []"
  by (simp add: URLSearchParams_def)

text \<open>
  C8. For every hash and every key, \<open>getHashQueryParam\<close> returns what
  \<open>getAllHashQueryParams().get\<close> returns. When the hash has no \<open>?\<close>, both return
  \<open>null\<close>; otherwise both parse the text after the first \<open>?\<close> of the hash.
\<close>

theorem hash_query_param_agrees:
  "getHashQueryParam hash key = params_get (getAllHashQueryParams hash) key
   \<and> (CHR ''?'' \<notin> set hash \<longrightarrow>
        getHashQueryParam hash key = None \<and> params_get (getAllHashQueryParams hash) key = None)
   \<and> (CHR ''?'' \<in> set hash \<longrightarrow>
        getHashQueryParam hash key =
          params_get (URLSearchParams (tl (dropWhile (\<lambda>x. x \<noteq> CHR ''?'') hash))) key
        \<and> getAllHashQueryParams hash =
          URLSearchParams (tl (dropWhile (\<lambda>x. x \<noteq> CHR ''?'') hash)))"
proof (cases "CHR ''?'' \<in> set hash")
  case True
  then have nn: "0 \<le> indexOf hash CHR ''?''" and ne: "indexOf hash CHR ''?'' \<noteq> - 1"
    by (simp_all add: indexOf_nonneg indexOf_minus1)
  with True substring_after_first [OF True] show ?thesis
    by (simp add: getHashQueryParam_def getAllHashQueryParams_def Let_def)
next
  case False
  then have "indexOf hash CHR ''?'' = - 1" by (simp add: indexOf_minus1)
  with False show ?thesis
    by (simp add: getHashQueryParam_def getAllHashQueryParams_def Let_def
        URLSearchParams_empty params_get_def)
qed


theorem hash_query_param_agrees_witness:
  "getHashQueryParam ''#/mfa-setup?uri=abc&foo=bar'' ''foo'' = Some ''bar''
   \<and> params_get (getAllHashQueryParams ''#/mfa-setup?uri=abc&foo=bar'') ''foo'' = Some ''bar''
   \<and> CHR ''?'' \<in> set ''#/mfa-setup?uri=abc&foo=bar''
   \<and> getAllHashQueryParams ''#/mfa-setup?uri=abc&foo=bar'' = [(''uri'', ''abc''), (''foo'', ''bar'')]
   \<and> CHR ''?'' \<notin> set ''#/mfa''
   \<and> getHashQueryParam ''#/mfa'' ''foo'' = None
   \<and> params_get (getAllHashQueryParams ''#/mfa'') ''foo'' = None"
  using hash_query_param_agrees [of "''#/mfa-setup?uri=abc&foo=bar''" "''foo''"]
    hash_query_param_agrees [of "''#/mfa''" "''foo''"]
  by (simp add: URLSearchParams_def parse_pair_def form_decode_def substring_def params_get_def Let_def)

section \<open>What a function may add to the trace\<close>

lemmas io_defs = ret_def throw_def bind_def try_catch_def emit_def call_def modify_def reads_def

lemma emits_ret: "emits S (ret x)"
  by (simp add: emits_def ret_def)

lemma emits_throw: "emits S (throw x)"
  by (simp add: emits_def throw_def)

lemma emits_reads: "emits S (reads f)"
  by (simp add: emits_def reads_def)

lemma emits_now: "emits S (now e)"
  by (simp add: now_def emits_reads)

lemma emits_modify: "(\<And>w. trace (f w) = trace w) \<Longrightarrow> emits S (modify f)"
  by (simp add: emits_def modify_def)

lemma emits_emit: "kind_of ev \<in> S \<Longrightarrow> emits S (emit ev)"
  by (simp add: emits_def emit_def)

lemma emits_call: "kind_of ev \<in> S \<Longrightarrow> emits S (call ev a)"
  by (simp add: emits_def call_def)

lemma emits_bind:
  assumes "emits S m" and "\<And>x. emits S (f x)"
  shows "emits S (bind m f)"
  unfolding emits_def
proof
  fix w
  obtain r w1 where mw: "m w = (r, w1)" by (cases "m w")
  from assms(1) obtain evs1 where e1: "trace w1 = trace w @ evs1" "kind_of ` set evs1 \<subseteq> S"
    unfolding emits_def using mw by (metis snd_conv)
  show "\<exists>evs. trace (snd (bind m f w)) = trace w @ evs \<and> kind_of ` set evs \<subseteq> S"
  proof (cases r)
    case (Inl err)
    with mw e1 show ?thesis by (auto simp: bind_def)
  next
    case (Inr x)
    from assms(2) [of x] obtain evs2 where
      e2: "trace (snd (f x w1)) = trace w1 @ evs2" "kind_of ` set evs2 \<subseteq> S"
      unfolding emits_def by blast
    have "trace (snd (bind m f w)) = trace w @ (evs1 @ evs2)"
      using mw Inr e1 e2 by (simp add: bind_def)
    moreover have "kind_of ` set (evs1 @ evs2) \<subseteq> S" using e1 e2 by auto
    ultimately show ?thesis by blast
  qed
qed

lemma emits_try_catch:
  assumes "emits S m" and "\<And>x. emits S (h x)"
  shows "emits S (try_catch m h)"
  unfolding emits_def
proof
  fix w
  obtain r w1 where mw: "m w = (r, w1)" by (cases "m w")
  from assms(1) obtain evs1 where e1: "trace w1 = trace w @ evs1" "kind_of ` set evs1 \<subseteq> S"
    unfolding emits_def using mw by (metis snd_conv)
  show "\<exists>evs. trace (snd (try_catch m h w)) = trace w @ evs \<and> kind_of ` set evs \<subseteq> S"
  proof (cases r)
    case (Inr x)
    with mw e1 show ?thesis by (auto simp: try_catch_def)
  next
    case (Inl x)
    from assms(2) [of x] obtain evs2 where
      e2: "trace (snd (h x w1)) = trace w1 @ evs2" "kind_of ` set evs2 \<subseteq> S"
      unfolding emits_def by blast
    have "trace (snd (try_catch m h w)) = trace w @ (evs1 @ evs2)"
      using mw Inl e1 e2 by (simp add: try_catch_def)
    moreover have "kind_of ` set (evs1 @ evs2) \<subseteq> S" using e1 e2 by auto
    ultimately show ?thesis by blast
  qed
qed

lemma emits_when_do: "emits S m \<Longrightarrow> emits S (when_do b m)"
  by (simp add: when_do_def emits_ret)

lemma emits_ignore_errors: "emits S m \<Longrightarrow> emits S (ignore_errors m)"
  by (simp add: ignore_errors_def emits_try_catch emits_ret)

lemma emits_if_truthy: "(\<And>v. emits S (f v)) \<Longrightarrow> emits S (if_truthy s f)"
  by (simp add: if_truthy_def emits_ret split: option.splits)

lemma emits_mono: "emits S m \<Longrightarrow> S \<subseteq> T \<Longrightarrow> emits T m"
  unfolding emits_def by (meson order_trans)

lemma emits_of_kind:
  assumes "emits S m" and "k \<notin> S"
  shows "of_kind k (trace (snd (m w))) = of_kind k (trace w)"
proof -
  from assms(1) obtain evs where "trace (snd (m w)) = trace w @ evs" "kind_of ` set evs \<subseteq> S"
    unfolding emits_def by blast
  moreover from this assms(2) have "filter (\<lambda>ev. kind_of ev = k) evs = []"
    by (auto simp: filter_empty_conv)
  ultimately show ?thesis by (simp add: of_kind_def)
qed

lemmas emits_intros = emits_ret emits_throw emits_reads emits_now emits_modify emits_emit emits_call
  emits_bind emits_try_catch emits_when_do emits_ignore_errors emits_if_truthy

lemma emits_notify: "{KConsole, KToast} \<subseteq> S \<Longrightarrow> emits S (notify e t txt title)"
  by (auto simp: notify_def intro!: emits_intros)

lemma emits_getConfig: "{KConfig, KConsole, KToast} \<subseteq> S \<Longrightarrow> emits S (getConfig e)"
  unfolding getConfig_def
  by (auto intro!: emits_intros emits_notify split: option.splits sum.splits)

lemma emits_configureAuth: "{KConfig, KConsole, KToast} \<subseteq> S \<Longrightarrow> emits S (configureAuth e)"
  unfolding configureAuth_def
  by (auto intro!: emits_intros emits_getConfig split: option.splits)

lemma emits_set_cookie: "emits S (set_cookie c)"
  by (simp add: set_cookie_def emits_modify)

lemma emits_setItem: "emits S (setItem k v)"
  by (simp add: setItem_def emits_modify)

lemma emits_setJWTCookie: "KConsole \<in> S \<Longrightarrow> emits S (setJWTCookie e jwt)"
  unfolding setJWTCookie_def
  by (auto intro!: emits_intros emits_set_cookie split: sum.splits)

lemma emits_store_tokens: "KConsole \<in> S \<Longrightarrow> emits S (store_tokens e a)"
  unfolding store_tokens_def
  by (auto intro!: emits_intros emits_setItem emits_setJWTCookie)

section \<open>The MFA form\<close>

lemma of_kind_append [simp]: "of_kind k (xs @ ys) = of_kind k xs @ of_kind k ys"
  by (simp add: of_kind_def)

lemma of_kind_after_bind:
  assumes "\<And>x. emits S (f x)" and "k \<notin> S"
  shows "of_kind k (trace (snd (bind m f w))) = of_kind k (trace (snd (m w)))"
proof (cases "m w")
  case (Pair r w1)
  then show ?thesis
    using emits_of_kind [OF assms(1) assms(2), of _ w1]
    by (cases r) (simp_all add: bind_def)
qed

lemma of_kind_after_try_catch:
  assumes "\<And>x. emits S (h x)" and "k \<notin> S"
  shows "of_kind k (trace (snd (try_catch m h w))) = of_kind k (trace (snd (m w)))"
proof (cases "m w")
  case (Pair r w1)
  then show ?thesis
    using emits_of_kind [OF assms(1) assms(2), of _ w1]
    by (cases r) (simp_all add: try_catch_def)
qed

lemma emits_verifyMFACode:
  "{KInvoke ''verifyMFACode'', KConfig, KConsole, KToast, KConfirmSignIn, KSession} \<subseteq> S \<Longrightarrow>
   emits S (verifyMFACode e site code)"
  unfolding verifyMFACode_def
  by (auto simp: Let_def intro!: emits_intros emits_setItem emits_setJWTCookie emits_configureAuth)

lemma of_kind_marked:
  assumes "emits S m" and "k \<notin> S"
  shows "of_kind k (trace (snd (bind (emit ev) (\<lambda>_. m) w))) = of_kind k (trace w) @ of_kind k [ev]"
  using emits_of_kind [OF assms, of "w\<lparr>trace := trace w @ [ev]\<rparr>"]
  by (simp add: bind_def emit_def)

lemma verifyMFACode_invocations:
  "of_kind (KInvoke ''verifyMFACode'') (trace (snd (verifyMFACode e site code w))) =
   of_kind (KInvoke ''verifyMFACode'') (trace w) @ [Invoke ''verifyMFACode'' [site, code]]"
  unfolding verifyMFACode_def
  by (subst of_kind_marked [where S = "- {KInvoke ''verifyMFACode''}"])
    (auto simp: Let_def of_kind_def
      intro!: emits_intros emits_setItem emits_setJWTCookie emits_configureAuth)

lemma emits_mfa_modifiers:
  "emits S mfa_hide_error" "emits S mfa_btn_loading" "emits S mfa_btn_restore"
  "emits S (mfa_show_error msg)"
  by (simp_all add: mfa_hide_error_def mfa_btn_loading_def mfa_btn_restore_def
      mfa_show_error_def emits_modify)

lemma trim_no_ws:
  assumes "\<forall>c \<in> set s. \<not> is_ws c"
  shows "trim s = s"
proof -
  from assms have "dropWhile is_ws s = s"
    by (cases s) simp_all
  moreover from assms have "dropWhile is_ws (rev s) = rev s"
    by (cases "rev s") (simp, metis dropWhile.simps(2) list.set_intros(1) set_rev)
  ultimately show ?thesis
    by (simp add: trim_def)
qed

lemma mfa_code_joined:
  "(\<forall>c \<in> set (join_empty (mfa_digits w)). \<not> is_ws c) \<Longrightarrow>
   mfa_code w = join_empty (mfa_digits w)"
  by (simp add: mfa_code_def trim_no_ws)

text \<open>
  C2. A submission of the MFA form whose code has six characters enters \<open>verifyMFACode\<close>
  exactly once, with the site \<open>OpenLogx\<close> and that code; and no submission enters it more
  than once. The code is what the handler computes: the values of the digit inputs joined,
  then trimmed; when the inputs hold no white space (the input listener empties an input
  that holds anything but one digit), it is the joined text itself.
\<close>

theorem mfa_submit_verifies_once:
  "(length (mfa_code w) = 6 \<longrightarrow>
      of_kind (KInvoke ''verifyMFACode'') (trace (snd (mfa_submitHandler e w))) =
      of_kind (KInvoke ''verifyMFACode'') (trace w)
        @ [Invoke ''verifyMFACode'' [''OpenLogx'', mfa_code w]])
   \<and> length (of_kind (KInvoke ''verifyMFACode'') (trace (snd (mfa_submitHandler e w))))
       \<le> length (of_kind (KInvoke ''verifyMFACode'') (trace w)) + 1
   \<and> ((\<forall>c \<in> set (join_empty (mfa_digits w)). \<not> is_ws c) \<longrightarrow>
        mfa_code w = join_empty (mfa_digits w))"
proof -
  let ?k = "KInvoke ''verifyMFACode''"
  let ?S = "- {?k}"
  let ?w1 = "snd (mfa_btn_loading (snd (mfa_hide_error w)))"
  let ?post = "\<lambda>result.
      if mfa_status result = ''Success'' then emit (SetLocationHref (auth_endpoint e))
      else bind mfa_btn_restore (\<lambda>_. notify e NError
             (or_else (or_empty (errorMsg result)) ''MFA code verification failed.'')
             (Some ''MFA Error''))"
  let ?h = "\<lambda>ex. bind mfa_btn_restore (\<lambda>_. notify e NError
         (or_else (err_message ex) ''Unexpected error during MFA verification.'')
         (Some ''MFA Error''))"
  let ?verify = "verifyMFACode e ''OpenLogx'' (mfa_code w)"
  have tr1: "trace ?w1 = trace w"
    by (simp add: mfa_btn_loading_def mfa_hide_error_def modify_def)
  have post: "emits ?S (?post result)" for result
    by (auto intro!: emits_intros emits_mfa_modifiers emits_notify)
  have handler: "emits ?S (?h ex)" for ex
    by (auto intro!: emits_intros emits_mfa_modifiers emits_notify)
  have six: "of_kind ?k (trace (snd (mfa_submitHandler e w))) =
      of_kind ?k (trace w) @ [Invoke ''verifyMFACode'' [''OpenLogx'', mfa_code w]]"
    if len: "length (mfa_code w) = 6"
  proof -
    have "mfa_submitHandler e w = try_catch (bind ?verify ?post) ?h ?w1"
      using len
      by (simp add: mfa_submitHandler_def bind_def reads_def mfa_hide_error_def
          mfa_btn_loading_def modify_def try_catch_def)
    then have "of_kind ?k (trace (snd (mfa_submitHandler e w))) =
        of_kind ?k (trace (snd (bind ?verify ?post ?w1)))"
      using of_kind_after_try_catch [of ?S ?h ?k "bind ?verify ?post" ?w1, OF handler] by simp
    also have "\<dots> = of_kind ?k (trace (snd (?verify ?w1)))"
      using of_kind_after_bind [of ?S ?post ?k ?verify ?w1, OF post] by simp
    also have "\<dots> = of_kind ?k (trace w) @ [Invoke ''verifyMFACode'' [''OpenLogx'', mfa_code w]]"
      using verifyMFACode_invocations [of e "''OpenLogx''" "mfa_code w" ?w1] tr1 by simp
    finally show ?thesis .
  qed
  have other: "of_kind ?k (trace (snd (mfa_submitHandler e w))) = of_kind ?k (trace w)"
    if "length (mfa_code w) \<noteq> 6"
    using that
    by (simp add: mfa_submitHandler_def bind_def reads_def mfa_show_error_def modify_def)
  show ?thesis
    using six other mfa_code_joined [of w] by (cases "length (mfa_code w) = 6") simp_all
qed

lemmas run_defs = ret_def throw_def bind_def try_catch_def emit_def call_def modify_def reads_def
  when_do_def ignore_errors_def if_truthy_def truthy_def or_empty_def or_else_def now_def
  notify_def getConfig_def configureAuth_def jwt_segment_def jwt_payload_of_def jwt_expiry_def
  date_le_def toUTCString_def token_cookie_def set_cookie_def setJWTCookie_def setItem_def
  store_tokens_def verifyMFACode_def checkSession_def

lemmas sample_defs = quiet_env_def rejecting_env_def fresh_world_def idle_button_def state_ts_init_def

theorem mfa_submit_verifies_once_witness:
  "length (mfa_code fresh_world) = 6
   \<and> of_kind (KInvoke ''verifyMFACode'') (trace (snd (mfa_submitHandler quiet_env fresh_world))) =
       [Invoke ''verifyMFACode'' [''OpenLogx'', ''123456'']]"
  using mfa_submit_verifies_once [of fresh_world quiet_env]
  by (simp add: fresh_world_def mfa_code_def trim_def join_empty_def is_ws_def of_kind_def)

lemma verifyMFACode_no_navigation:
  "of_kind KNavigate (trace (snd (verifyMFACode e site code w))) = of_kind KNavigate (trace w)"
  by (rule emits_of_kind [OF emits_verifyMFACode [of "- {KNavigate}"]]) simp_all

text \<open>
  C3. A submission whose code does not have six characters shows the error banner (when the
  page has one) with the message \<open>Please enter a full 6-digit code\<close> and does nothing
  else: the trace is unchanged, so \<open>verifyMFACode\<close> is not entered and nothing
  navigates. A submission whose verification returns a status other than \<open>Success\<close> adds
  no navigation and, the Gritter plugin being loaded, ends with an error toast titled
  \<open>MFA Error\<close> carrying the result's message. The code is the joined values of the digit
  inputs, trimmed, which is the joined text itself when the inputs hold no white space.
\<close>

theorem mfa_submit_failure:
  "(length (mfa_code w) \<noteq> 6 \<longrightarrow>
      fst (mfa_submitHandler e w) = Inr ()
      \<and> trace (snd (mfa_submitHandler e w)) = trace w
      \<and> mfa_error_box (snd (mfa_submitHandler e w)) =
          map_option (\<lambda>b. b\<lparr>textContent := ''Please enter a full 6-digit code'', box_d_none := False\<rparr>)
            (mfa_error_box w))
   \<and> (length (mfa_code w) = 6 \<and> fst (mfa_verification e w) = Inr result
        \<and> mfa_status result \<noteq> ''Success'' \<longrightarrow>
      fst (mfa_submitHandler e w) = Inr ()
      \<and> of_kind KNavigate (trace (snd (mfa_submitHandler e w))) = of_kind KNavigate (trace w)
      \<and> (gritter_ready e \<longrightarrow>
           trace (snd (mfa_submitHandler e w)) =
           trace (snd (mfa_verification e w))
             @ [GritterAdd NError
                  (or_else (or_empty (errorMsg result)) ''MFA code verification failed.'')
                  ''MFA Error'']))
   \<and> ((\<forall>c \<in> set (join_empty (mfa_digits w)). \<not> is_ws c) \<longrightarrow>
        mfa_code w = join_empty (mfa_digits w))"
proof -
  have short: "mfa_submitHandler e w =
      (Inr (), w\<lparr>mfa_error_box :=
         map_option (\<lambda>b. b\<lparr>textContent := ''Please enter a full 6-digit code'', box_d_none := False\<rparr>)
           (mfa_error_box w)\<rparr>)"
    if "length (mfa_code w) \<noteq> 6"
    using that
    by (simp add: mfa_submitHandler_def bind_def reads_def mfa_show_error_def modify_def)
  have failed: "mfa_submitHandler e w =
      notify e NError (or_else (or_empty (errorMsg result)) ''MFA code verification failed.'')
        (Some ''MFA Error'') (snd (mfa_btn_restore (snd (mfa_verification e w))))"
    if len: "length (mfa_code w) = 6" and res: "fst (mfa_verification e w) = Inr result"
      and st: "mfa_status result \<noteq> ''Success''"
  proof -
    obtain w2 where v: "mfa_verification e w = (Inr result, w2)"
      using res by (cases "mfa_verification e w") simp
    then have "verifyMFACode e ''OpenLogx'' (mfa_code w)
        (snd (mfa_btn_loading (snd (mfa_hide_error w)))) = (Inr result, w2)"
      by (simp add: mfa_verification_def)
    then show ?thesis
      using len st v
      by (simp add: mfa_submitHandler_def bind_def reads_def mfa_hide_error_def
          mfa_btn_loading_def mfa_btn_restore_def modify_def try_catch_def notify_def emit_def)
  qed
  have nav: "of_kind KNavigate (trace (snd (mfa_verification e w))) = of_kind KNavigate (trace w)"
    using verifyMFACode_no_navigation [of e "''OpenLogx''" "mfa_code w"
        "snd (mfa_btn_loading (snd (mfa_hide_error w)))"]
    by (simp add: mfa_verification_def mfa_btn_loading_def mfa_hide_error_def modify_def)
  show ?thesis
    using short failed nav mfa_code_joined [of w]
    by (auto simp: notify_def emit_def mfa_btn_restore_def modify_def of_kind_def)
qed

theorem mfa_submit_failure_witness:
  "length (mfa_code (fresh_world\<lparr>mfa_digits := [''1'', ''2'', ''3'']\<rparr>)) \<noteq> 6
   \<and> trace (snd (mfa_submitHandler quiet_env (fresh_world\<lparr>mfa_digits := [''1'', ''2'', ''3'']\<rparr>))) = []
   \<and> mfa_error_box (snd (mfa_submitHandler quiet_env (fresh_world\<lparr>mfa_digits := [''1'', ''2'', ''3'']\<rparr>))) =
       Some \<lparr>textContent = ''Please enter a full 6-digit code'', box_d_none = False\<rparr>
   \<and> length (mfa_code fresh_world) = 6
   \<and> fst (mfa_verification rejecting_env fresh_world) =
       Inr \<lparr>mfa_status = ''Failed'', errorMsg = Some ''MFA code invalid or not accepted.''\<rparr>
   \<and> gritter_ready rejecting_env
   \<and> of_kind KNavigate (trace (snd (mfa_submitHandler rejecting_env fresh_world))) = []
   \<and> of_kind KToast (trace (snd (mfa_submitHandler rejecting_env fresh_world))) =
       [GritterAdd NError ''MFA code invalid or not accepted.'' ''MFA Error'']"
proof -
  let ?short = "fresh_world\<lparr>mfa_digits := [''1'', ''2'', ''3'']\<rparr>"
  let ?r = "\<lparr>mfa_status = ''Failed'', errorMsg = Some ''MFA code invalid or not accepted.''\<rparr>"
  have len3: "length (mfa_code ?short) \<noteq> 6"
    by (simp add: fresh_world_def mfa_code_def trim_def join_empty_def is_ws_def)
  have len6: "length (mfa_code fresh_world) = 6"
    by (simp add: fresh_world_def mfa_code_def trim_def join_empty_def is_ws_def)
  have ver: "fst (mfa_verification rejecting_env fresh_world) = Inr ?r"
    by (simp add: mfa_verification_def mfa_hide_error_def mfa_btn_loading_def mfa_code_def
        trim_def join_empty_def is_ws_def run_defs sample_defs)
  have tr: "of_kind KToast (trace (snd (mfa_verification rejecting_env fresh_world))) = []"
    by (simp add: mfa_verification_def mfa_hide_error_def mfa_btn_loading_def mfa_code_def
        trim_def join_empty_def is_ws_def run_defs sample_defs of_kind_def)
  have gr: "gritter_ready rejecting_env"
    by (simp add: sample_defs)
  have st: "mfa_status ?r \<noteq> ''Success''" by simp
  from mfa_submit_failure [of ?short quiet_env ?r] len3
  have a: "trace (snd (mfa_submitHandler quiet_env ?short)) = trace ?short
      \<and> mfa_error_box (snd (mfa_submitHandler quiet_env ?short)) =
        map_option (\<lambda>b. b\<lparr>textContent := ''Please enter a full 6-digit code'', box_d_none := False\<rparr>)
            (mfa_error_box ?short)"
    by blast
  then have a': "trace (snd (mfa_submitHandler quiet_env ?short)) = []
      \<and> mfa_error_box (snd (mfa_submitHandler quiet_env ?short)) =
        Some \<lparr>textContent = ''Please enter a full 6-digit code'', box_d_none = False\<rparr>"
    by (simp add: fresh_world_def)
  from mfa_submit_failure [of fresh_world rejecting_env ?r] len6 ver st gr
  have b: "of_kind KNavigate (trace (snd (mfa_submitHandler rejecting_env fresh_world))) =
        of_kind KNavigate (trace fresh_world)
      \<and> trace (snd (mfa_submitHandler rejecting_env fresh_world)) =
           trace (snd (mfa_verification rejecting_env fresh_world))
             @ [GritterAdd NError
                  (or_else (or_empty (errorMsg ?r)) ''MFA code verification failed.'')
                  ''MFA Error'']"
    by blast
  have b1: "of_kind KNavigate (trace (snd (mfa_submitHandler rejecting_env fresh_world))) = []"
    using conjunct1 [OF b] by (simp add: fresh_world_def of_kind_def)
  have b2: "of_kind KToast (trace (snd (mfa_submitHandler rejecting_env fresh_world))) =
       [GritterAdd NError ''MFA code invalid or not accepted.'' ''MFA Error'']"
    using conjunct2 [OF b] tr by (simp add: of_kind_def or_else_def or_empty_def)
  show ?thesis
    using a' b1 b2 len3 len6 ver gr by simp
qed

section \<open>The session cookie\<close>



section \<open>The translation of the provider's next step\<close>

text \<open>
  C1. When the provider's answer to the sign-in says that the user is not signed in,
  \<open>signInUser\<close> returns the status that belongs to the answer's next step and does
  nothing further: \<open>MFASetup\<close> for \<open>CONTINUE_SIGN_IN_WITH_TOTP_SETUP\<close>, with the setup
  URI of the provider's TOTP details for the application \<open>OpenLogx\<close> and the email as
  \<open>mfaSetupUrl\<close>; \<open>MFA\<close> for \<open>CONFIRM_SIGN_IN_WITH_TOTP_CODE\<close>;
  \<open>ResetPasswordConfirm\<close> for \<open>RESET_PASSWORD\<close>; \<open>UpdatePassword\<close> for
  \<open>CONFIRM_SIGN_IN_WITH_NEW_PASSWORD_REQUIRED\<close>.
\<close>

theorem signInUser_translates_next_step:
  assumes "fst (provider_answer e email' pw w) = Inr result"
    and "\<not> isSignedIn result"
    and "nextStep result = Some step"
  shows "snd (signInUser e email' pw w) = snd (provider_answer e email' pw w)
    \<and> (signInStep step = ''CONTINUE_SIGN_IN_WITH_TOTP_SETUP'' \<longrightarrow>
         fst (signInUser e email' pw w) =
           Inr \<lparr>status = ''MFASetup'',
                mfaSetupUrl = map_option (\<lambda>getSetupUri. getSetupUri ''OpenLogx'' email')
                                (totpSetupDetails step),
                error = None\<rparr>)
    \<and> (signInStep step = ''CONFIRM_SIGN_IN_WITH_TOTP_CODE'' \<longrightarrow>
         fst (signInUser e email' pw w) =
           Inr \<lparr>status = ''MFA'', mfaSetupUrl = None, error = None\<rparr>)
    \<and> (signInStep step = ''RESET_PASSWORD'' \<longrightarrow>
         fst (signInUser e email' pw w) =
           Inr \<lparr>status = ''ResetPasswordConfirm'', mfaSetupUrl = None, error = None\<rparr>)
    \<and> (signInStep step = ''CONFIRM_SIGN_IN_WITH_NEW_PASSWORD_REQUIRED'' \<longrightarrow>
         fst (signInUser e email' pw w) =
           Inr \<lparr>status = ''UpdatePassword'', mfaSetupUrl = None, error = None\<rparr>)"
proof -
  obtain w1 where pa: "provider_answer e email' pw w = (Inr result, w1)"
    using assms(1) by (cases "provider_answer e email' pw w") simp
  then have "signInUser e email' pw w = translate_result e email' result w1"
    by (simp add: signInUser_def bind_def)
  with pa assms(2,3) show ?thesis
    by (simp add: translate_result_def ret_def status_only_def)
qed

lemmas run_defs2 = run_defs password_input_def sdk_signIn_call_def signOut_quietly_def
  signIn_or_retry_def provider_answer_def

theorem signInUser_translates_next_step_witness:
  "fst (provider_answer totp_setup_env ''ann@example.com'' ''pw'' fresh_world) =
     Inr \<lparr>isSignedIn = False, nextStep = Some totp_setup_step\<rparr>
   \<and> signInStep totp_setup_step = ''CONTINUE_SIGN_IN_WITH_TOTP_SETUP''
   \<and> fst (signInUser totp_setup_env ''ann@example.com'' ''pw'' fresh_world) =
       Inr \<lparr>status = ''MFASetup'',
            mfaSetupUrl = Some ''otpauth://totp/OpenLogx:ann@example.com'',
            error = None\<rparr>"
proof -
  let ?r = "\<lparr>isSignedIn = False, nextStep = Some totp_setup_step\<rparr>"
  have pa: "fst (provider_answer totp_setup_env ''ann@example.com'' ''pw'' fresh_world) = Inr ?r"
    by (simp add: run_defs2 totp_setup_env_def sample_defs)
  have step: "signInStep totp_setup_step = ''CONTINUE_SIGN_IN_WITH_TOTP_SETUP''"
    by (simp add: totp_setup_step_def)
  from signInUser_translates_next_step
    [of totp_setup_env "''ann@example.com''" "''pw''" fresh_world ?r totp_setup_step] pa step
  have "fst (signInUser totp_setup_env ''ann@example.com'' ''pw'' fresh_world) =
       Inr \<lparr>status = ''MFASetup'',
            mfaSetupUrl = map_option (\<lambda>getSetupUri. getSetupUri ''OpenLogx'' ''ann@example.com'')
                            (totpSetupDetails totp_setup_step),
            error = None\<rparr>"
    by simp
  then show ?thesis
    using pa step by (simp add: totp_setup_step_def)
qed

section \<open>The traces of the sign-in functions and of the router\<close>

lemma emits_sdk_signIn_call: "KSignIn \<in> S \<Longrightarrow> emits S (sdk_signIn_call e inp)"
  by (simp add: sdk_signIn_call_def emits_call)

lemma emits_signOut_quietly: "KSignOut \<in> S \<Longrightarrow> emits S (signOut_quietly e)"
  by (simp add: signOut_quietly_def emits_ignore_errors emits_call)

lemma emits_signIn_or_retry: "{KSignIn, KSignOut} \<subseteq> S \<Longrightarrow> emits S (signIn_or_retry e email' pw)"
  unfolding signIn_or_retry_def
  by (auto intro!: emits_intros emits_sdk_signIn_call)

lemma emits_check_authMethod:
  "{KSession, KConsole, KHttp, KSignOut} \<subseteq> S \<Longrightarrow> emits S (check_authMethod e)"
  unfolding check_authMethod_def
  by (auto simp: Let_def intro!: emits_intros emits_setItem emits_setJWTCookie emits_signOut_quietly
      split: option.splits sum.splits json_value.splits)

lemma emits_signed_in_checks:
  "{KCredentials, KPreference, KSession, KConsole, KHttp, KSignOut} \<subseteq> S \<Longrightarrow>
   emits S (signed_in_checks e)"
  unfolding signed_in_checks_def
  by (auto simp: Let_def intro!: emits_intros emits_check_authMethod emits_store_tokens
      split: option.splits)

lemma emits_translate_result:
  "{KCredentials, KPreference, KSession, KConsole, KHttp, KSignOut} \<subseteq> S \<Longrightarrow>
   emits S (translate_result e email' result)"
  unfolding translate_result_def
  by (auto intro!: emits_intros emits_signed_in_checks split: option.splits)

lemma emits_provider_answer:
  "{KInvoke ''signInUser'', KConfig, KConsole, KToast, KSignIn, KSignOut} \<subseteq> S \<Longrightarrow>
   emits S (provider_answer e email' pw)"
  unfolding provider_answer_def
  by (auto intro!: emits_intros emits_configureAuth emits_signIn_or_retry)

lemma emits_signInUser:
  "{KInvoke ''signInUser'', KConfig, KConsole, KToast, KSignIn, KSignOut, KCredentials,
    KPreference, KSession, KHttp} \<subseteq> S \<Longrightarrow>
   emits S (signInUser e email' pw)"
  unfolding signInUser_def
  by (auto intro!: emits_intros emits_provider_answer emits_translate_result)

lemma emits_signInWithPasskey:
  "{KInvoke ''signInWithPasskey'', KConfig, KConsole, KToast, KSignIn, KSession} \<subseteq> S \<Longrightarrow>
   emits S (signInWithPasskey e email')"
  unfolding signInWithPasskey_def
  by (auto intro!: emits_intros emits_configureAuth emits_sdk_signIn_call emits_store_tokens
      split: option.splits)

lemma emits_checkSession:
  "{KInvoke ''checkSession'', KConfig, KConsole, KToast, KSession} \<subseteq> S \<Longrightarrow>
   emits S (checkSession e)"
  unfolding checkSession_def
  by (auto intro!: emits_intros emits_configureAuth emits_setItem emits_setJWTCookie)




lemma emits_session_gate:
  "{KInvoke ''checkSession'', KConfig, KConsole, KToast, KSession, KModal, KNavigate} \<subseteq> S \<Longrightarrow>
   emits S (session_gate e routePath)"
  unfolding session_gate_def
  by (auto simp: Let_def intro!: emits_intros emits_checkSession)

section \<open>Cancelling the passkey dialog\<close>

lemma bind_returns: "fst (m w) = Inr x \<Longrightarrow> bind m f w = f x (snd (m w))"
  by (cases "m w") (simp add: bind_def)

lemma bind_throws: "fst (m w) = Inl err \<Longrightarrow> bind m f w = (Inl err, snd (m w))"
  by (cases "m w") (simp add: bind_def)

lemma try_catch_returns: "fst (m w) = Inr x \<Longrightarrow> try_catch m h w = (Inr x, snd (m w))"
  by (cases "m w") (simp add: try_catch_def)

lemma try_catch_throws: "fst (m w) = Inl err \<Longrightarrow> try_catch m h w = h err (snd (m w))"
  by (cases "m w") (simp add: try_catch_def)

lemma configureAuth_quiet_success:
  "fst (configureAuth e w) = Inr () \<Longrightarrow>
   of_kind KToast (trace (snd (configureAuth e w))) = of_kind KToast (trace w)"
  by (auto simp: configureAuth_def getConfig_def bind_def reads_def ret_def throw_def call_def
      try_catch_def modify_def emit_def notify_def of_kind_def
      split: option.splits sum.splits if_splits prod.splits)

lemma passkey_cancelled_status:
  "err_name err = ''NotAllowedError'' \<Longrightarrow>
   passkey_error_result err = \<lparr>status = ''Cancelled'', mfaSetupUrl = None,
     error = Some ''Authentication was cancelled''\<rparr>"
  by (simp add: passkey_error_result_def status_error_def)

lemma signInWithPasskey_cancelled:
  assumes pkc: "has_PublicKeyCredential e"
    and cfg: "fst (configureAuth e (entered ''signInWithPasskey'' [uname] w0)) = Inr ()"
    and ans: "sdk_signIn e (trace (snd (configureAuth e (entered ''signInWithPasskey'' [uname] w0))))
         (passkey_input uname) = Inl err"
    and name: "err_name err = ''NotAllowedError''"
  shows "signInWithPasskey e uname w0 =
     (Inr \<lparr>status = ''Cancelled'', mfaSetupUrl = None, error = Some ''Authentication was cancelled''\<rparr>,
      (snd (configureAuth e (entered ''signInWithPasskey'' [uname] w0)))
        \<lparr>trace := trace (snd (configureAuth e (entered ''signInWithPasskey'' [uname] w0)))
           @ [SdkSignIn (passkey_input uname), ConsoleError ''[SignInWithPasskey Error]'']\<rparr>)"
proof -
  let ?w1 = "snd (configureAuth e (entered ''signInWithPasskey'' [uname] w0))"
  obtain c where c: "configureAuth e (entered ''signInWithPasskey'' [uname] w0) = (Inr (), c)"
    using cfg by (cases "configureAuth e (entered ''signInWithPasskey'' [uname] w0)") simp
  then have w1: "?w1 = c" by simp
  show ?thesis
    using pkc ans name c w1
    by (simp add: signInWithPasskey_def bind_def emit_def entered_def try_catch_def
        sdk_signIn_call_def call_def ret_def passkey_cancelled_status)
qed

lemma bind_reads: "bind (reads f) g w = g (f w) w"
  by (simp add: bind_def reads_def)

lemma passkey_cancelled_tail:
  assumes "status out = ''Cancelled''"
  shows "fst (bind clear_spinnerInterval (\<lambda>_. passkey_dispatch e out) w2) = Inr ()"
    and "of_kind KToast (trace (snd (bind clear_spinnerInterval (\<lambda>_. passkey_dispatch e out) w2)))
         = of_kind KToast (trace w2)"
    and "of_kind KNavigate (trace (snd (bind clear_spinnerInterval (\<lambda>_. passkey_dispatch e out) w2)))
         = of_kind KNavigate (trace w2)"
    and "\<not> disabled (passkey_btn (snd (bind clear_spinnerInterval (\<lambda>_. passkey_dispatch e out) w2)))"
  using assms
  by (simp_all add: clear_spinnerInterval_def reads_def bind_def when_do_def emit_def ret_def
      passkey_dispatch_def passkey_btn_restore_def modify_def restore_button_def of_kind_def)

lemma passkey_clicked_trace:
  "of_kind KToast (trace (passkey_clicked e w)) = of_kind KToast (trace w)"
  "of_kind KNavigate (trace (passkey_clicked e w)) = of_kind KNavigate (trace w)"
  by (simp_all add: passkey_clicked_def set_spinnerInterval_def pace_restart_def
      passkey_btn_loading_def bind_def emit_def modify_def when_do_def ret_def of_kind_def)

lemma passkeyClickHandler_unfold:
  assumes "form_value (extractFormValues (login_form w) []) ''email'' = uname" and "uname \<noteq> []"
  shows "passkeyClickHandler e w =
     try_catch
       (bind (signInWithPasskey e uname) (\<lambda>signInOutput.
          bind clear_spinnerInterval (\<lambda>_. passkey_dispatch e signInOutput)))
       (\<lambda>err.
            bind clear_spinnerInterval (\<lambda>_.
            bind passkey_btn_restore (\<lambda>_.
              if err_name err = ''NotAllowedError'' \<or> str_includes (err_message err) ''cancelled''
                 \<or> str_includes (err_message err) ''canceled''
              then ret ()
              else
                bind (emit (ConsoleError ''[Passkey Error]'')) (\<lambda>_.
                  notify e NError (err_message err) (Some ''Passkey Authentication Failed'')))))
       (passkey_clicked e w)"
proof -
  have pre: "bind passkey_btn_loading (\<lambda>_. bind (pace_restart e) (\<lambda>_. bind set_spinnerInterval (\<lambda>_. X))) w
      = X (passkey_clicked e w)" for X :: "unit io"
    by (simp add: passkey_clicked_def set_spinnerInterval_def pace_restart_def
        passkey_btn_loading_def bind_def emit_def modify_def when_do_def ret_def)
  have pre': "try_catch
        (bind passkey_btn_loading (\<lambda>_. bind (pace_restart e) (\<lambda>_. bind set_spinnerInterval (\<lambda>_. X))))
        h w = try_catch X h (passkey_clicked e w)" for X :: "unit io" and h
    by (simp add: try_catch_def pre)
  show ?thesis
    using assms
    unfolding passkeyClickHandler_def
    by (simp add: bind_reads Let_def pre')
qed

text \<open>
  C6. The user cancels the WebAuthn dialog: WebAuthn being supported and the auth module
  configured, the provider's \<open>signIn\<close> throws an error named \<open>NotAllowedError\<close>. Then
  \<open>signInWithPasskey\<close> does not throw but returns the status \<open>Cancelled\<close> with the message
  \<open>Authentication was cancelled\<close>, and adds no toast. When this happens under the passkey
  click handler (an email being entered in the form), the handler returns normally, shows
  no toast of any type, does not navigate, and leaves the passkey button enabled.
\<close>

theorem passkey_cancellation:
  assumes "has_PublicKeyCredential e"
    and "fst (configureAuth e (entered ''signInWithPasskey'' [uname] w0)) = Inr ()"
    and "sdk_signIn e (trace (snd (configureAuth e (entered ''signInWithPasskey'' [uname] w0))))
           (passkey_input uname) = Inl err"
    and "err_name err = ''NotAllowedError''"
  shows "fst (signInWithPasskey e uname w0) =
           Inr \<lparr>status = ''Cancelled'', mfaSetupUrl = None,
                error = Some ''Authentication was cancelled''\<rparr>
    \<and> of_kind KToast (trace (snd (signInWithPasskey e uname w0))) = of_kind KToast (trace w0)
    \<and> (w0 = passkey_clicked e w
         \<and> form_value (extractFormValues (login_form w) []) ''email'' = uname \<and> uname \<noteq> [] \<longrightarrow>
         fst (passkeyClickHandler e w) = Inr ()
         \<and> of_kind KToast (trace (snd (passkeyClickHandler e w))) = of_kind KToast (trace w)
         \<and> of_kind KNavigate (trace (snd (passkeyClickHandler e w))) = of_kind KNavigate (trace w)
         \<and> \<not> disabled (passkey_btn (snd (passkeyClickHandler e w))))"
proof -
  let ?out = "\<lparr>status = ''Cancelled'', mfaSetupUrl = None,
                error = Some ''Authentication was cancelled''\<rparr>"
  let ?w1 = "snd (configureAuth e (entered ''signInWithPasskey'' [uname] w0))"
  let ?w2 = "?w1\<lparr>trace := trace ?w1
      @ [SdkSignIn (passkey_input uname), ConsoleError ''[SignInWithPasskey Error]'']\<rparr>"
  let ?tail = "\<lambda>out. bind clear_spinnerInterval (\<lambda>_. passkey_dispatch e out)"
  have run: "signInWithPasskey e uname w0 = (Inr ?out, ?w2)"
    using signInWithPasskey_cancelled [OF assms] .
  have toast1: "of_kind KToast (trace ?w1) = of_kind KToast (trace w0)"
    using configureAuth_quiet_success [OF assms(2)] by (simp add: entered_def of_kind_def)
  have nav1: "of_kind KNavigate (trace ?w1) = of_kind KNavigate (trace w0)"
    using emits_of_kind [OF emits_configureAuth [of "- {KNavigate}" e], of KNavigate
        "entered ''signInWithPasskey'' [uname] w0"]
    by (simp add: entered_def of_kind_def)
  have toast2: "of_kind KToast (trace ?w2) = of_kind KToast (trace w0)"
    using toast1 by (simp add: of_kind_def)
  have nav2: "of_kind KNavigate (trace ?w2) = of_kind KNavigate (trace w0)"
    using nav1 by (simp add: of_kind_def)
  have st: "status ?out = ''Cancelled''" by simp
  have handler: "fst (passkeyClickHandler e w) = Inr ()
         \<and> of_kind KToast (trace (snd (passkeyClickHandler e w))) = of_kind KToast (trace w)
         \<and> of_kind KNavigate (trace (snd (passkeyClickHandler e w))) = of_kind KNavigate (trace w)
         \<and> \<not> disabled (passkey_btn (snd (passkeyClickHandler e w)))"
    if w0: "w0 = passkey_clicked e w"
      and form: "form_value (extractFormValues (login_form w) []) ''email'' = uname"
      and ne: "uname \<noteq> []"
  proof -
    have body: "bind (signInWithPasskey e uname) ?tail w0 = ?tail ?out ?w2"
      using run by (simp add: bind_def)
    have ok: "fst (?tail ?out ?w2) = Inr ()"
      using passkey_cancelled_tail(1) [OF st] .
    have "passkeyClickHandler e w = (Inr (), snd (?tail ?out ?w2))"
      using passkeyClickHandler_unfold [OF form ne, of e] body ok w0
        try_catch_returns [of "bind (signInWithPasskey e uname) ?tail" w0 "()"]
      by simp
    then show ?thesis
      using passkey_cancelled_tail [OF st, of e ?w2] toast2 nav2 w0 passkey_clicked_trace [of e w]
      by simp
  qed
  show ?thesis
    using run toast2 handler by simp
qed

theorem passkey_cancellation_witness:
  "has_PublicKeyCredential cancelling_env
   \<and> fst (configureAuth cancelling_env
          (entered ''signInWithPasskey'' [''ann@example.com''] (passkey_clicked cancelling_env fresh_world)))
       = Inr ()
   \<and> fst (signInWithPasskey cancelling_env ''ann@example.com'' (passkey_clicked cancelling_env fresh_world)) =
       Inr \<lparr>status = ''Cancelled'', mfaSetupUrl = None, error = Some ''Authentication was cancelled''\<rparr>
   \<and> fst (passkeyClickHandler cancelling_env fresh_world) = Inr ()
   \<and> of_kind KToast (trace (snd (passkeyClickHandler cancelling_env fresh_world))) = []
   \<and> of_kind KNavigate (trace (snd (passkeyClickHandler cancelling_env fresh_world))) = []
   \<and> \<not> disabled (passkey_btn (snd (passkeyClickHandler cancelling_env fresh_world)))"
proof -
  let ?e = cancelling_env
  let ?u = "''ann@example.com''"
  let ?w0 = "passkey_clicked ?e fresh_world"
  let ?err = "\<lparr>err_name = ''NotAllowedError'',
            err_message = ''The operation either timed out or was not allowed.''\<rparr>"
  have pkc: "has_PublicKeyCredential ?e"
    by (simp add: cancelling_env_def quiet_env_def)
  have cfg: "fst (configureAuth ?e (entered ''signInWithPasskey'' [?u] ?w0)) = Inr ()"
    by (simp add: run_defs sample_defs cancelling_env_def entered_def passkey_clicked_def
        set_spinnerInterval_def pace_restart_def passkey_btn_loading_def)
  have ans: "sdk_signIn ?e (trace (snd (configureAuth ?e (entered ''signInWithPasskey'' [?u] ?w0))))
      (passkey_input ?u) = Inl ?err"
    by (simp add: cancelling_env_def)
  have name: "err_name ?err = ''NotAllowedError''" by simp
  have form: "form_value (extractFormValues (login_form fresh_world) []) ''email'' = ?u"
    by (simp add: fresh_world_def extractFormValues_def form_value_def trim_def is_ws_def)
  have fresh: "trace fresh_world = []" by (simp add: fresh_world_def)
  from passkey_cancellation [OF pkc cfg ans name, of fresh_world] form fresh
  show ?thesis
    using pkc cfg by (simp add: of_kind_def)
qed

section \<open>The router\<close>

lemma split_on_head: "\<exists>ps. split_on c s = takeWhile (\<lambda>x. x \<noteq> c) s # ps"
  by (induction s) (auto split: list.splits)

lemma routePath_of_takeWhile: "routePath_of h = takeWhile (\<lambda>x. x \<noteq> CHR ''?'') h"
  using split_on_head [of "CHR ''?''" h] by (auto simp: routePath_of_def)

lemma route_hash_default:
  "route_hash w = (if drop 1 (location_hash w) = [] then ''/'' else drop 1 (location_hash w))"
  by (simp add: route_hash_def or_else_def slice1_def)

lemma handleRoute_missing:
  assumes "lookup_route e (routePath_of (route_hash w)) = None
     \<or> (\<exists>r. lookup_route e (routePath_of (route_hash w)) = Some r \<and> \<not> truthy (component r))"
  shows "handleRoute e w =
     (Inr (), w\<lparr>trace := trace w @
        [ConsoleWarn (''[App] No route found for '' @ [CHR 0x22] @ route_hash w @ [CHR 0x22])]\<rparr>)"
  using assms
  by (auto simp: handleRoute_def bind_reads Let_def no_route_found_def emit_def)

lemma handleRoute_found:
  assumes "lookup_route e (routePath_of (route_hash w)) = Some r" and "truthy (component r)"
  shows "handleRoute e w =
     bind (session_gate e (routePath_of (route_hash w)))
       (\<lambda>proceed. if proceed then load_route e (or_empty (component r)) r else ret ()) w"
  using assms by (simp add: handleRoute_def bind_reads Let_def)

text \<open>
  C7. \<open>handleRoute\<close> takes the hash without its first character, or \<open>/\<close> when that is
  empty, keeps what precedes the first \<open>?\<close>, and looks this path up in the routes table.
  When the table has no entry for the path, or the entry has no component, it only warns on
  the console: it returns normally and the state is otherwise the one it started in, so no
  component is loaded and the view is unchanged. When the entry has a component, that
  component is what it goes on to show, subject to the session gate.
\<close>

theorem handleRoute_lookup:
  "route_hash w = (if drop 1 (location_hash w) = [] then ''/'' else drop 1 (location_hash w))
   \<and> routePath_of (route_hash w) = takeWhile (\<lambda>x. x \<noteq> CHR ''?'') (route_hash w)
   \<and> (lookup_route e (routePath_of (route_hash w)) = None \<longrightarrow>
        handleRoute e w =
          (Inr (), w\<lparr>trace := trace w @
             [ConsoleWarn (''[App] No route found for '' @ [CHR 0x22] @ route_hash w @ [CHR 0x22])]\<rparr>))
   \<and> (lookup_route e (routePath_of (route_hash w)) = Some r \<and> \<not> truthy (component r) \<longrightarrow>
        handleRoute e w =
          (Inr (), w\<lparr>trace := trace w @
             [ConsoleWarn (''[App] No route found for '' @ [CHR 0x22] @ route_hash w @ [CHR 0x22])]\<rparr>))
   \<and> (lookup_route e (routePath_of (route_hash w)) = Some r \<and> truthy (component r) \<longrightarrow>
        handleRoute e w =
          bind (session_gate e (routePath_of (route_hash w)))
            (\<lambda>proceed. if proceed then load_route e (or_empty (component r)) r else ret ()) w)"
  using route_hash_default [of w] routePath_of_takeWhile [of "route_hash w"]
    handleRoute_missing [of e w] handleRoute_found [of e w r]
  by blast










theorem handleRoute_lookup_witness:
  "route_hash (at_hash []) = ''/''
   \<and> route_hash (at_hash ''#/nowhere?next=1'') = ''/nowhere?next=1''
   \<and> routePath_of (route_hash (at_hash ''#/nowhere?next=1'')) = ''/nowhere''
   \<and> lookup_route quiet_env (routePath_of (route_hash (at_hash ''#/nowhere?next=1''))) = None
   \<and> handleRoute quiet_env (at_hash ''#/nowhere?next=1'') =
       (Inr (), (at_hash ''#/nowhere?next=1'')\<lparr>trace :=
          [ConsoleWarn (''[App] No route found for '' @ [CHR 0x22] @ ''/nowhere?next=1'' @ [CHR 0x22])]\<rparr>)
   \<and> lookup_route bare_route_env (routePath_of (route_hash (at_hash ''#/nowhere?next=1''))) =
       Some \<lparr>component = None, child = None\<rparr>
   \<and> handleRoute bare_route_env (at_hash ''#/nowhere?next=1'') =
       (Inr (), (at_hash ''#/nowhere?next=1'')\<lparr>trace :=
          [ConsoleWarn (''[App] No route found for '' @ [CHR 0x22] @ ''/nowhere?next=1'' @ [CHR 0x22])]\<rparr>)
   \<and> lookup_route quiet_env (routePath_of (route_hash fresh_world)) =
       Some \<lparr>component = Some ''main-viewport'', child = Some ''mfa''\<rparr>
   \<and> handleRoute quiet_env fresh_world =
       bind (session_gate quiet_env ''/mfa'')
         (\<lambda>proceed. if proceed
            then load_route quiet_env ''main-viewport''
                   \<lparr>component = Some ''main-viewport'', child = Some ''mfa''\<rparr>
            else ret ()) fresh_world"
proof -
  let ?w = "at_hash ''#/nowhere?next=1''"
  let ?r = "\<lparr>component = Some ''main-viewport'', child = Some ''mfa''\<rparr>"
  let ?bare = "\<lparr>component = None :: string option, child = None :: string option\<rparr>"
  have h0: "route_hash (at_hash []) = ''/''"
    by (simp add: route_hash_default at_hash_def fresh_world_def)
  have h1: "route_hash ?w = ''/nowhere?next=1''"
    by (simp add: route_hash_default at_hash_def fresh_world_def)
  have p1: "routePath_of (route_hash ?w) = ''/nowhere''"
    by (simp add: h1 routePath_of_takeWhile)
  have l1: "lookup_route quiet_env (routePath_of (route_hash ?w)) = None"
    by (simp add: p1 lookup_route_def quiet_env_def)
  have l2: "lookup_route bare_route_env (routePath_of (route_hash ?w)) = Some ?bare"
    by (simp add: p1 lookup_route_def bare_route_env_def)
  have t2: "\<not> truthy (component ?bare)" by (simp add: truthy_def)
  have h3: "route_hash fresh_world = ''/mfa''"
    by (simp add: route_hash_default fresh_world_def)
  have p3: "routePath_of (route_hash fresh_world) = ''/mfa''"
    by (simp add: h3 routePath_of_takeWhile)
  have l3: "lookup_route quiet_env (routePath_of (route_hash fresh_world)) = Some ?r"
    by (simp add: p3 lookup_route_def quiet_env_def)
  have t3: "truthy (component ?r)" by (simp add: truthy_def)
  have tr: "trace ?w = []" by (simp add: at_hash_def fresh_world_def)
  have r1: "handleRoute quiet_env ?w =
       (Inr (), ?w\<lparr>trace :=
          [ConsoleWarn (''[App] No route found for '' @ [CHR 0x22] @ ''/nowhere?next=1'' @ [CHR 0x22])]\<rparr>)"
  proof -
    from handleRoute_lookup [of ?w quiet_env] l1
    have "handleRoute quiet_env ?w =
       (Inr (), ?w\<lparr>trace := trace ?w @
          [ConsoleWarn (''[App] No route found for '' @ [CHR 0x22] @ route_hash ?w @ [CHR 0x22])]\<rparr>)"
      by blast
    then show ?thesis by (simp add: h1 tr)
  qed
  have r2: "handleRoute bare_route_env ?w =
       (Inr (), ?w\<lparr>trace :=
          [ConsoleWarn (''[App] No route found for '' @ [CHR 0x22] @ ''/nowhere?next=1'' @ [CHR 0x22])]\<rparr>)"
  proof -
    from handleRoute_lookup [of ?w bare_route_env ?bare] l2 t2
    have "handleRoute bare_route_env ?w =
       (Inr (), ?w\<lparr>trace := trace ?w @
          [ConsoleWarn (''[App] No route found for '' @ [CHR 0x22] @ route_hash ?w @ [CHR 0x22])]\<rparr>)"
      by blast
    then show ?thesis by (simp add: h1 tr)
  qed
  have r3: "handleRoute quiet_env fresh_world =
       bind (session_gate quiet_env ''/mfa'')
         (\<lambda>proceed. if proceed then load_route quiet_env ''main-viewport'' ?r else ret ()) fresh_world"
  proof -
    from handleRoute_lookup [of fresh_world quiet_env ?r] l3 t3
    have "handleRoute quiet_env fresh_world =
       bind (session_gate quiet_env (routePath_of (route_hash fresh_world)))
         (\<lambda>proceed. if proceed then load_route quiet_env (or_empty (component ?r)) ?r else ret ())
         fresh_world"
      by blast
    then show ?thesis by (simp add: p3 or_empty_def cong: if_cong)
  qed
  show ?thesis
    using h0 h1 p1 l1 l2 l3 r1 r2 r3 by simp
qed



section \<open>Failed calls of the identity provider\<close>















end
